theory Spec2Isabelle
  imports Main
begin

section \<open>The host: visual tree, timers, console\<close>

text \<open>
  Typify runs in a browser page. The page owns the elements, the timers and the console;
  the Typify object only holds handles to them. The model keeps both in one record,
  \<open>world\<close>, so that every effect of the source is an update of that record.

  A child of an element is a text node holding one character, or a span (the cursor),
  which has an identity: the same span can be appended again, and is then moved.
\<close>

datatype node = TextNode char | SpanNode nat

record dom_element =
  children :: "node list"
  classList :: "string list"
  style_color :: string
  style_animationDuration :: string

record span =
  span_classList :: "string list"
  textContent :: string

text \<open>
  A timer is a one-shot timeout or a repeating interval. Typify passes exactly two
  callbacks: every \<open>setTimeout\<close> calls \<open>startTyping\<close>, every \<open>setInterval\<close> runs the
  reveal tick. So the kind of a timer determines its callback.
\<close>

datatype tkind = OneShot | Repeating nat

record timer =
  tid :: nat
  due :: nat
  kind :: tkind

datatype exn = TypeError | NotFoundError | SyntaxError | InvalidCharacterError

text \<open>
  The three outcomes of \<open>document.querySelector\<close>: a selector that is not valid CSS
  makes it throw a SyntaxError, a valid selector matches an element or matches none
  (null).
\<close>

datatype lookup = Malformed | NoMatch | Match nat

text \<open>
  A configuration object of the source is a JavaScript object in which any key may be
  missing: every field is optional. \<open>no_options\<close> is the object \<open>{}\<close>.
\<close>

record options =
  opt_selector :: "string option"
  opt_text :: "string option"
  opt_speed :: "nat option"
  opt_loop :: "bool option"
  opt_cursor :: "bool option"
  opt_cursorStyle :: "string option"
  opt_delay :: "nat option"
  opt_animation :: "string option"
  opt_color :: "string option"
  opt_animationDuration :: "nat option"

definition no_options :: options where
  "no_options = \<lparr>opt_selector = None, opt_text = None, opt_speed = None, opt_loop = None,
     opt_cursor = None, opt_cursorStyle = None, opt_delay = None, opt_animation = None,
     opt_color = None, opt_animationDuration = None\<rparr>"

text \<open>
  The fields of the Typify object (first group) and of the page (second group).
  \<open>querySelector\<close> is \<open>document.querySelector\<close> of the page. Elements and spans
  live in stores and are named by their index; timers are kept in the order they were
  armed.
\<close>

record world =
  config :: options
  isInitialized :: bool
  typingInterval :: "nat option"
  currentIndex :: nat
  this_text :: string
  element :: "nat option"
  cursorElement :: "nat option"
  animationClass :: string
  querySelector :: "string \<Rightarrow> lookup"
  elements :: "nat \<Rightarrow> dom_element"
  spans :: "span list"
  timers :: "timer list"
  nextTimer :: nat
  now :: nat
  console :: "string list"

text \<open>
  A call returns normally with the new world (\<open>Inr\<close>) or throws (\<open>Inl\<close>); a throw keeps
  the mutations made before it, so the exception carries the world it left behind.
\<close>

type_synonym result = "(exn \<times> world) + world"

definition world_of :: "result \<Rightarrow> world" where
  "world_of r = (case r of Inl (e, w) \<Rightarrow> w | Inr w \<Rightarrow> w)"

definition stmt :: "(world \<Rightarrow> world) \<Rightarrow> world \<Rightarrow> result" where
  "stmt f w = Inr (f w)"

text \<open>A sequence of statements: the first throw ends it.\<close>

fun block :: "(world \<Rightarrow> result) list \<Rightarrow> world \<Rightarrow> result" where
  "block [] w = Inr w"
| "block (s # ss) w = (case s w of Inl e \<Rightarrow> Inl e | Inr w' \<Rightarrow> block ss w')"

definition if_then :: "(world \<Rightarrow> bool) \<Rightarrow> (world \<Rightarrow> result) \<Rightarrow> world \<Rightarrow> result" where
  "if_then c s w = (if c w then s w else Inr w)"

subsection \<open>JavaScript values\<close>

definition digit_char :: "nat \<Rightarrow> char" where
  "digit_char d = (if d = 0 then CHR ''0'' else if d = 1 then CHR ''1''
     else if d = 2 then CHR ''2'' else if d = 3 then CHR ''3'' else if d = 4 then CHR ''4''
     else if d = 5 then CHR ''5'' else if d = 6 then CHR ''6'' else if d = 7 then CHR ''7''
     else if d = 8 then CHR ''8'' else CHR ''9'')"

function decimal :: "nat \<Rightarrow> string" where
  "decimal n = (if n < 10 then [digit_char n] else decimal (n div 10) @ [digit_char (n mod 10)])"
  by pat_completeness auto
termination
  by (relation "measure id") auto

declare decimal.simps [simp del]

text \<open>A missing key reads as \<open>undefined\<close>; in a template string it prints as that word.\<close>

definition js_str :: "string option \<Rightarrow> string" where
  "js_str v = (case v of None \<Rightarrow> ''undefined'' | Some s \<Rightarrow> s)"

definition js_num_str :: "nat option \<Rightarrow> string" where
  "js_num_str v = (case v of None \<Rightarrow> ''undefined'' | Some n \<Rightarrow> decimal n)"

text \<open>A missing delay is taken as 0 by \<open>setTimeout\<close> and \<open>setInterval\<close>.\<close>

definition js_ms :: "nat option \<Rightarrow> nat" where
  "js_ms v = (case v of None \<Rightarrow> 0 | Some n \<Rightarrow> n)"

text \<open>Truthiness: a missing key, the empty string, 0 and false are falsy.\<close>

definition truthy_str :: "string option \<Rightarrow> bool" where
  "truthy_str v = (case v of None \<Rightarrow> False | Some s \<Rightarrow> s \<noteq> [])"

definition truthy_num :: "nat option \<Rightarrow> bool" where
  "truthy_num v = (case v of None \<Rightarrow> False | Some n \<Rightarrow> n \<noteq> 0)"

definition truthy_bool :: "bool option \<Rightarrow> bool" where
  "truthy_bool v = (case v of None \<Rightarrow> False | Some b \<Rightarrow> b)"

text \<open>Object spread \<open>{ ...a, ...b }\<close>: a key of \<open>b\<close> wins over the same key of \<open>a\<close>.\<close>

definition over :: "'a option \<Rightarrow> 'a option \<Rightarrow> 'a option" where
  "over a b = (case b of None \<Rightarrow> a | Some x \<Rightarrow> Some x)"

definition spread :: "options \<Rightarrow> options \<Rightarrow> options" where
  "spread a b = \<lparr>opt_selector = over (opt_selector a) (opt_selector b),
     opt_text = over (opt_text a) (opt_text b),
     opt_speed = over (opt_speed a) (opt_speed b),
     opt_loop = over (opt_loop a) (opt_loop b),
     opt_cursor = over (opt_cursor a) (opt_cursor b),
     opt_cursorStyle = over (opt_cursorStyle a) (opt_cursorStyle b),
     opt_delay = over (opt_delay a) (opt_delay b),
     opt_animation = over (opt_animation a) (opt_animation b),
     opt_color = over (opt_color a) (opt_color b),
     opt_animationDuration = over (opt_animationDuration a) (opt_animationDuration b)\<rparr>"

subsection \<open>Timers\<close>

definition setTimeout :: "nat \<Rightarrow> world \<Rightarrow> world" where
  "setTimeout d w = w\<lparr>timers := timers w @ [\<lparr>tid = nextTimer w, due = now w + d, kind = OneShot\<rparr>],
     nextTimer := Suc (nextTimer w)\<rparr>"

text \<open>\<open>setInterval\<close> returns the new handle, which is \<open>nextTimer\<close> of the world before.\<close>

definition setInterval :: "nat \<Rightarrow> world \<Rightarrow> world" where
  "setInterval p w = w\<lparr>timers := timers w @ [\<lparr>tid = nextTimer w, due = now w + p, kind = Repeating p\<rparr>],
     nextTimer := Suc (nextTimer w)\<rparr>"

text \<open>Clearing a handle that is null or names no armed timer does nothing.\<close>

definition clearInterval :: "nat option \<Rightarrow> world \<Rightarrow> world" where
  "clearInterval h w = (case h of None \<Rightarrow> w
     | Some i \<Rightarrow> w\<lparr>timers := filter (\<lambda>t. tid t \<noteq> i) (timers w)\<rparr>)"

subsection \<open>The visual tree\<close>

definition set_children :: "nat \<Rightarrow> node list \<Rightarrow> world \<Rightarrow> world" where
  "set_children e ns w = w\<lparr>elements := (elements w)(e := (elements w e)\<lparr>children := ns\<rparr>)\<rparr>"

text \<open>\<open>this.element.innerHTML = ''\<close>; reading a property of null throws a TypeError.\<close>

definition clear_innerHTML :: "world \<Rightarrow> result" where
  "clear_innerHTML w = (case element w of None \<Rightarrow> Inl (TypeError, w)
     | Some e \<Rightarrow> Inr (set_children e [] w))"

text \<open>
  \<open>classList.add\<close> and \<open>classList.remove\<close> validate the token first: the empty string
  is a SyntaxError, a token with ASCII whitespace an InvalidCharacterError.
\<close>

definition is_space :: "char \<Rightarrow> bool" where
  "is_space c = (c = CHR '' '' \<or> c = CHR 0x09 \<or> c = CHR 0x0A \<or> c = CHR 0x0C \<or> c = CHR 0x0D)"

definition token_error :: "string \<Rightarrow> exn option" where
  "token_error t = (if t = [] then Some SyntaxError
     else if list_ex is_space t then Some InvalidCharacterError else None)"

definition classList_add :: "string \<Rightarrow> world \<Rightarrow> result" where
  "classList_add t w = (case element w of None \<Rightarrow> Inl (TypeError, w)
     | Some e \<Rightarrow> (case token_error t of Some x \<Rightarrow> Inl (x, w)
         | None \<Rightarrow> Inr (w\<lparr>elements := (elements w)(e := (elements w e)
             \<lparr>classList := (if t \<in> set (classList (elements w e)) then classList (elements w e)
                             else classList (elements w e) @ [t])\<rparr>)\<rparr>)))"

definition classList_remove :: "string \<Rightarrow> world \<Rightarrow> result" where
  "classList_remove t w = (case element w of None \<Rightarrow> Inl (TypeError, w)
     | Some e \<Rightarrow> (case token_error t of Some x \<Rightarrow> Inl (x, w)
         | None \<Rightarrow> Inr (w\<lparr>elements := (elements w)(e := (elements w e)
             \<lparr>classList := filter (\<lambda>c. c \<noteq> t) (classList (elements w e))\<rparr>)\<rparr>)))"

definition set_style_color :: "string \<Rightarrow> world \<Rightarrow> result" where
  "set_style_color v w = (case element w of None \<Rightarrow> Inl (TypeError, w)
     | Some e \<Rightarrow> Inr (w\<lparr>elements := (elements w)(e := (elements w e)\<lparr>style_color := v\<rparr>)\<rparr>))"

definition set_style_animationDuration :: "string \<Rightarrow> world \<Rightarrow> result" where
  "set_style_animationDuration v w = (case element w of None \<Rightarrow> Inl (TypeError, w)
     | Some e \<Rightarrow> Inr (w\<lparr>elements := (elements w)(e := (elements w e)\<lparr>style_animationDuration := v\<rparr>)\<rparr>))"

text \<open>\<open>this.element.appendChild(document.createTextNode(char))\<close>\<close>

definition appendChild_text :: "char \<Rightarrow> world \<Rightarrow> result" where
  "appendChild_text c w = (case element w of None \<Rightarrow> Inl (TypeError, w)
     | Some e \<Rightarrow> Inr (set_children e (children (elements w e) @ [TextNode c]) w))"

text \<open>
  \<open>this.element.insertBefore(document.createTextNode(char), this.cursorElement)\<close>:
  the reference node must be a child of the element, else NotFoundError.
\<close>

fun insert_before :: "node \<Rightarrow> node \<Rightarrow> node list \<Rightarrow> node list" where
  "insert_before n r [] = []"
| "insert_before n r (x # xs) = (if x = r then n # x # xs else x # insert_before n r xs)"

definition insertBefore_text :: "char \<Rightarrow> nat \<Rightarrow> world \<Rightarrow> result" where
  "insertBefore_text c r w = (case element w of None \<Rightarrow> Inl (TypeError, w)
     | Some e \<Rightarrow> (if SpanNode r \<in> set (children (elements w e))
         then Inr (set_children e (insert_before (TextNode c) (SpanNode r) (children (elements w e))) w)
         else Inl (NotFoundError, w)))"

text \<open>
  \<open>this.element.appendChild(this.cursorElement)\<close>: appending null is a TypeError;
  a span that already has a parent is first removed from it.
\<close>

definition detach :: "nat \<Rightarrow> (nat \<Rightarrow> dom_element) \<Rightarrow> nat \<Rightarrow> dom_element" where
  "detach s els = (\<lambda>i. (els i)\<lparr>children := filter (\<lambda>n. n \<noteq> SpanNode s) (children (els i))\<rparr>)"

definition appendChild_span :: "nat option \<Rightarrow> world \<Rightarrow> result" where
  "appendChild_span h w = (case element w of None \<Rightarrow> Inl (TypeError, w)
     | Some e \<Rightarrow> (case h of None \<Rightarrow> Inl (TypeError, w)
         | Some s \<Rightarrow> Inr (w\<lparr>elements := (detach s (elements w))
             (e := (detach s (elements w) e)\<lparr>children := children (detach s (elements w) e) @ [SpanNode s]\<rparr>)\<rparr>)))"

text \<open>\<open>this.element.removeChild(this.cursorElement)\<close>: NotFoundError unless it is a child.\<close>

definition removeChild_span :: "nat \<Rightarrow> world \<Rightarrow> result" where
  "removeChild_span s w = (case element w of None \<Rightarrow> Inl (TypeError, w)
     | Some e \<Rightarrow> (if SpanNode s \<in> set (children (elements w e))
         then Inr (set_children e (filter (\<lambda>n. n \<noteq> SpanNode s) (children (elements w e))) w)
         else Inl (NotFoundError, w)))"

text \<open>
  Creating the cursor: \<open>createElement('span')\<close>, class \<open>typify-cursor\<close>, the glyph as
  its text; the handle is stored in \<open>cursorElement\<close> before the span is appended.
\<close>

definition create_cursor :: "world \<Rightarrow> world" where
  "create_cursor w = w\<lparr>cursorElement := Some (length (spans w)),
     spans := spans w @ [\<lparr>span_classList = [''typify-cursor''],
                          textContent = js_str (opt_cursorStyle (config w))\<rparr>]\<rparr>"

definition set_cursor_text :: "string \<Rightarrow> world \<Rightarrow> world" where
  "set_cursor_text v w = (case cursorElement w of None \<Rightarrow> w
     | Some s \<Rightarrow> w\<lparr>spans := (spans w)[s := (spans w ! s)\<lparr>textContent := v\<rparr>]\<rparr>)"

section \<open>Typify 2.0.0 (typify-v-2.0.0.js)\<close>

definition defaultOptions :: options where
  "defaultOptions = \<lparr>opt_selector = Some ''#typing-demo'', opt_text = Some ''Hello, TurboChat!'',
     opt_speed = Some 100, opt_loop = Some False, opt_cursor = Some True,
     opt_cursorStyle = Some ''|'', opt_delay = Some 500, opt_animation = Some ''none'',
     opt_color = Some ''#e0e0e0'', opt_animationDuration = Some 1000\<rparr>"

definition not_found_message :: "string \<Rightarrow> string" where
  "not_found_message sel =
     ''Typify Error: No element found for selector '' @ [CHR 0x22] @ sel @ [CHR 0x22]"

definition animation_token :: "string option \<Rightarrow> string" where
  "animation_token a = ''typify-animation-'' @ js_str a"

definition duration_ms :: "nat option \<Rightarrow> string" where
  "duration_ms d = js_num_str d @ ''ms''"

text \<open>\<open>startTyping\<close> arms the reveal ticker and stores its handle; it cancels nothing.\<close>

definition startTyping :: "world \<Rightarrow> world" where
  "startTyping w = (setInterval (js_ms (opt_speed (config w))) w)\<lparr>typingInterval := Some (nextTimer w)\<rparr>"

definition resetTyping :: "world \<Rightarrow> result" where
  "resetTyping = block [
     stmt (\<lambda>w. w\<lparr>currentIndex := 0\<rparr>),
     clear_innerHTML,
     if_then (\<lambda>w. opt_animation (config w) \<noteq> Some ''none'')
       (block [(\<lambda>w. classList_remove (animationClass w) w),
               (\<lambda>w. classList_add (animationClass w) w)]),
     if_then (\<lambda>w. truthy_bool (opt_cursor (config w)))
       (\<lambda>w. appendChild_span (cursorElement w) w)]"

text \<open>The body of the \<open>setInterval\<close> callback of \<open>startTyping\<close>: one reveal tick.\<close>

definition reveal_char :: "world \<Rightarrow> result" where
  "reveal_char w = (case cursorElement w of
       Some c \<Rightarrow> insertBefore_text (this_text w ! currentIndex w) c w
     | None \<Rightarrow> appendChild_text (this_text w ! currentIndex w) w)"

definition tick_with :: "(world \<Rightarrow> result) \<Rightarrow> world \<Rightarrow> result" where
  "tick_with reset w = (if currentIndex w < length (this_text w)
     then block [reveal_char, stmt (\<lambda>w. w\<lparr>currentIndex := Suc (currentIndex w)\<rparr>)] w
     else block [stmt (\<lambda>w. clearInterval (typingInterval w) w),
                 if_then (\<lambda>w. truthy_bool (opt_loop (config w)))
                   (block [reset, stmt (\<lambda>w. setTimeout (js_ms (opt_delay (config w))) w)])] w)"

definition tick :: "world \<Rightarrow> result" where
  "tick = tick_with resetTyping"

text \<open>
  \<open>init\<close> stores the merged configuration, then looks the target up. A malformed
  selector throws out of \<open>init\<close> before \<open>this.element\<close> is assigned; a selector
  that matches nothing assigns null, logs the error and returns.
\<close>

definition init :: "options \<Rightarrow> world \<Rightarrow> result" where
  "init cfg w =
     (let w1 = w\<lparr>config := spread defaultOptions cfg\<rparr> in
      case querySelector w1 (js_str (opt_selector (config w1))) of
        Malformed \<Rightarrow> Inl (SyntaxError, w1)
      | NoMatch \<Rightarrow> Inr (w1\<lparr>element := None,
            console := console w1 @ [not_found_message (js_str (opt_selector (config w1)))]\<rparr>)
      | Match e \<Rightarrow> block [
           (\<lambda>w. set_style_color (js_str (opt_color (config w))) w),
           stmt (\<lambda>w. w\<lparr>this_text := js_str (opt_text (config w))\<rparr>),
           stmt (\<lambda>w. w\<lparr>currentIndex := 0\<rparr>),
           clear_innerHTML,
           if_then (\<lambda>w. opt_animation (config w) \<noteq> Some ''none'')
             (block [stmt (\<lambda>w. w\<lparr>animationClass := animation_token (opt_animation (config w))\<rparr>),
                     (\<lambda>w. classList_add (animationClass w) w),
                     (\<lambda>w. set_style_animationDuration (duration_ms (opt_animationDuration (config w))) w)]),
           if_then (\<lambda>w. truthy_bool (opt_cursor (config w)))
             (block [stmt create_cursor, (\<lambda>w. appendChild_span (cursorElement w) w)]),
           stmt (\<lambda>w. setTimeout (js_ms (opt_delay (config w))) w),
           stmt (\<lambda>w. w\<lparr>isInitialized := True\<rparr>)] (w1\<lparr>element := Some e\<rparr>))"

text \<open>
  The cursor part of \<open>updateConfig\<close>: create the cursor when it is asked for and there
  is none, remove it when it is switched off and there is one.
\<close>

definition update_cursor :: "options \<Rightarrow> world \<Rightarrow> result" where
  "update_cursor newConfig w = (case cursorElement w of
       None \<Rightarrow> (if truthy_bool (opt_cursor newConfig)
                then block [stmt create_cursor, (\<lambda>w. appendChild_span (cursorElement w) w)] w
                else Inr w)
     | Some s \<Rightarrow> (if \<not> truthy_bool (opt_cursor newConfig)
                then block [removeChild_span s, stmt (\<lambda>w. w\<lparr>cursorElement := None\<rparr>)] w
                else Inr w))"

text \<open>
  The animation part of \<open>updateConfig\<close>. Its guard compares the new value with
  \<open>this.config.animation\<close>, which the merge at the top of \<open>updateConfig\<close> has already
  overwritten with the new value.
\<close>

definition update_animation :: "options \<Rightarrow> world \<Rightarrow> result" where
  "update_animation newConfig =
     if_then (\<lambda>w. truthy_str (opt_animation newConfig) \<and> opt_animation newConfig \<noteq> opt_animation (config w))
       (block [
          if_then (\<lambda>w. animationClass w \<noteq> []) (\<lambda>w. classList_remove (animationClass w) w),
          (\<lambda>w. if opt_animation newConfig \<noteq> Some ''none''
               then block [stmt (\<lambda>w. w\<lparr>animationClass := animation_token (opt_animation newConfig)\<rparr>),
                           (\<lambda>w. classList_add (animationClass w) w),
                           (\<lambda>w. set_style_animationDuration (duration_ms (opt_animationDuration (config w))) w)] w
               else block [stmt (\<lambda>w. w\<lparr>animationClass := []\<rparr>),
                           set_style_animationDuration []] w)])"

definition update_text :: "options \<Rightarrow> (world \<Rightarrow> result) \<Rightarrow> world \<Rightarrow> result" where
  "update_text newConfig reset =
     if_then (\<lambda>w. truthy_str (opt_text newConfig) \<and> opt_text newConfig \<noteq> Some (this_text w))
       (block [stmt (\<lambda>w. w\<lparr>this_text := js_str (opt_text newConfig)\<rparr>),
               reset,
               stmt (\<lambda>w. clearInterval (typingInterval w) w),
               stmt (\<lambda>w. setTimeout (js_ms (opt_delay (config w))) w)])"

definition update_speed :: "options \<Rightarrow> world \<Rightarrow> result" where
  "update_speed newConfig =
     if_then (\<lambda>w. truthy_num (opt_speed newConfig))
       (block [stmt (\<lambda>w. clearInterval (typingInterval w) w), stmt startTyping])"

definition updateConfig :: "options \<Rightarrow> world \<Rightarrow> result" where
  "updateConfig newConfig w = (if \<not> isInitialized w then Inr w else block [
     stmt (\<lambda>w. w\<lparr>config := spread (config w) newConfig\<rparr>),
     update_text newConfig resetTyping,
     update_speed newConfig,
     if_then (\<lambda>w. opt_cursor newConfig \<noteq> None) (update_cursor newConfig),
     if_then (\<lambda>w. truthy_str (opt_cursorStyle newConfig) \<and> cursorElement w \<noteq> None)
       (stmt (\<lambda>w. set_cursor_text (js_str (opt_cursorStyle (config w))) w)),
     update_animation newConfig,
     if_then (\<lambda>w. truthy_str (opt_color newConfig))
       (\<lambda>w. set_style_color (js_str (opt_color (config w))) w),
     if_then (\<lambda>w. truthy_num (opt_animationDuration newConfig))
       (\<lambda>w. set_style_animationDuration (duration_ms (opt_animationDuration (config w))) w)] w)"

definition destroy :: "world \<Rightarrow> result" where
  "destroy w = (if \<not> isInitialized w then Inr w else block [
     stmt (\<lambda>w. clearInterval (typingInterval w) w),
     clear_innerHTML,
     (\<lambda>w. classList_remove (animationClass w) w),
     stmt (\<lambda>w. w\<lparr>animationClass := []\<rparr>),
     stmt (\<lambda>w. w\<lparr>isInitialized := False\<rparr>)] w)"

section \<open>Typify 1.0.0 (typify.js)\<close>

definition defaultOptions_v1 :: options where
  "defaultOptions_v1 = \<lparr>opt_selector = Some ''#typing-demo'', opt_text = Some ''Hello, TurboChat!'',
     opt_speed = Some 100, opt_loop = Some False, opt_cursor = Some True,
     opt_cursorStyle = Some ''|'', opt_delay = Some 500, opt_animation = None,
     opt_color = None, opt_animationDuration = None\<rparr>"

definition resetTyping_v1 :: "world \<Rightarrow> result" where
  "resetTyping_v1 = block [
     stmt (\<lambda>w. w\<lparr>currentIndex := 0\<rparr>),
     clear_innerHTML,
     if_then (\<lambda>w. truthy_bool (opt_cursor (config w)))
       (\<lambda>w. appendChild_span (cursorElement w) w)]"

definition tick_v1 :: "world \<Rightarrow> result" where
  "tick_v1 = tick_with resetTyping_v1"

definition init_v1 :: "options \<Rightarrow> world \<Rightarrow> result" where
  "init_v1 cfg w =
     (let w1 = w\<lparr>config := spread defaultOptions_v1 cfg\<rparr> in
      case querySelector w1 (js_str (opt_selector (config w1))) of
        Malformed \<Rightarrow> Inl (SyntaxError, w1)
      | NoMatch \<Rightarrow> Inr (w1\<lparr>element := None,
            console := console w1 @ [not_found_message (js_str (opt_selector (config w1)))]\<rparr>)
      | Match e \<Rightarrow> block [
           stmt (\<lambda>w. w\<lparr>this_text := js_str (opt_text (config w))\<rparr>),
           stmt (\<lambda>w. w\<lparr>currentIndex := 0\<rparr>),
           clear_innerHTML,
           if_then (\<lambda>w. truthy_bool (opt_cursor (config w)))
             (block [stmt create_cursor, (\<lambda>w. appendChild_span (cursorElement w) w)]),
           stmt (\<lambda>w. setTimeout (js_ms (opt_delay (config w))) w),
           stmt (\<lambda>w. w\<lparr>isInitialized := True\<rparr>)] (w1\<lparr>element := Some e\<rparr>))"

definition updateConfig_v1 :: "options \<Rightarrow> world \<Rightarrow> result" where
  "updateConfig_v1 newConfig w = (if \<not> isInitialized w then Inr w else block [
     stmt (\<lambda>w. w\<lparr>config := spread (config w) newConfig\<rparr>),
     update_text newConfig resetTyping_v1,
     update_speed newConfig,
     if_then (\<lambda>w. opt_cursor newConfig \<noteq> None) (update_cursor newConfig),
     if_then (\<lambda>w. truthy_str (opt_cursorStyle newConfig) \<and> cursorElement w \<noteq> None)
       (stmt (\<lambda>w. set_cursor_text (js_str (opt_cursorStyle newConfig)) w))] w)"

definition destroy_v1 :: "world \<Rightarrow> result" where
  "destroy_v1 w = (if \<not> isInitialized w then Inr w else block [
     stmt (\<lambda>w. clearInterval (typingInterval w) w),
     clear_innerHTML,
     stmt (\<lambda>w. w\<lparr>isInitialized := False\<rparr>)] w)"

section \<open>The event loop\<close>

text \<open>
  Firing the timer with handle \<open>i\<close>: the clock moves to its due time (never backwards).
  A timeout is disarmed and calls \<open>startTyping\<close>. An interval runs the tick and, if the
  tick has not cleared it, is armed again one period later; an exception of the callback
  is reported by the page and does not disarm the interval.
\<close>

definition rearm :: "nat \<Rightarrow> nat \<Rightarrow> world \<Rightarrow> world" where
  "rearm i p w = w\<lparr>timers := map (\<lambda>t. if tid t = i then t\<lparr>due := now w + p\<rparr> else t) (timers w)\<rparr>"

definition fire_with :: "(world \<Rightarrow> result) \<Rightarrow> nat \<Rightarrow> world \<Rightarrow> result" where
  "fire_with tk i w = (case find (\<lambda>t. tid t = i) (timers w) of
       None \<Rightarrow> Inr w
     | Some t \<Rightarrow>
         (let w1 = w\<lparr>now := max (now w) (due t)\<rparr> in
          case kind t of
            OneShot \<Rightarrow> Inr (startTyping (w1\<lparr>timers := filter (\<lambda>u. tid u \<noteq> i) (timers w1)\<rparr>))
          | Repeating p \<Rightarrow> (case tk w1 of
                Inl (x, w2) \<Rightarrow> Inl (x, rearm i p w2)
              | Inr w2 \<Rightarrow> Inr (rearm i p w2))))"

definition fire :: "nat \<Rightarrow> world \<Rightarrow> result" where
  "fire = fire_with tick"

text \<open>The timer the page fires next: the earliest due, the first armed among equals.\<close>

fun earliest :: "timer list \<Rightarrow> timer option" where
  "earliest [] = None"
| "earliest (t # ts) = (case earliest ts of None \<Rightarrow> Some t
     | Some u \<Rightarrow> if due u < due t then Some u else Some t)"

definition fire_next :: "world \<Rightarrow> result" where
  "fire_next w = (case earliest (timers w) of None \<Rightarrow> Inr w | Some t \<Rightarrow> fire (tid t) w)"

fun run :: "nat \<Rightarrow> world \<Rightarrow> world" where
  "run 0 w = w"
| "run (Suc n) w = run n (world_of (fire_next w))"

text \<open>
  A history of the session: calls of the public operations by the page's script and
  firings of armed timers, in any order.
\<close>

datatype call = Init options | UpdateConfig options | Destroy | Fire nat

fun step :: "call \<Rightarrow> world \<Rightarrow> result" where
  "step (Init cfg) w = init cfg w"
| "step (UpdateConfig p) w = updateConfig p w"
| "step Destroy w = destroy w"
| "step (Fire i) w = fire i w"

fun step_v1 :: "call \<Rightarrow> world \<Rightarrow> result" where
  "step_v1 (Init cfg) w = init_v1 cfg w"
| "step_v1 (UpdateConfig p) w = updateConfig_v1 p w"
| "step_v1 Destroy w = destroy_v1 w"
| "step_v1 (Fire i) w = fire_with tick_v1 i w"

fun exec :: "call list \<Rightarrow> world \<Rightarrow> world" where
  "exec [] w = w"
| "exec (c # cs) w = exec cs (world_of (step c w))"

fun exec_v1 :: "call list \<Rightarrow> world \<Rightarrow> world" where
  "exec_v1 [] w = w"
| "exec_v1 (c # cs) w = exec_v1 cs (world_of (step_v1 c w))"

text \<open>The Typify object as the script defines it, on a page with the given elements.\<close>

definition loaded :: "(string \<Rightarrow> lookup) \<Rightarrow> (nat \<Rightarrow> dom_element) \<Rightarrow> world" where
  "loaded doc els = \<lparr>config = no_options, isInitialized = False, typingInterval = None,
     currentIndex = 0, this_text = [], element = None, cursorElement = None,
     animationClass = [], querySelector = doc, elements = els, spans = [], timers = [],
     nextTimer = 1, now = 0, console = []\<rparr>"

section \<open>Observations and a sample page\<close>

definition returns :: "result \<Rightarrow> bool" where
  "returns r = (case r of Inl x \<Rightarrow> False | Inr w \<Rightarrow> True)"

definition thrown :: "result \<Rightarrow> exn option" where
  "thrown r = (case r of Inl (x, w) \<Rightarrow> Some x | Inr w \<Rightarrow> None)"

fun is_repeating :: "tkind \<Rightarrow> bool" where
  "is_repeating OneShot = False"
| "is_repeating (Repeating p) = True"

text \<open>The reveal tickers that are armed.\<close>

definition tickers :: "world \<Rightarrow> timer list" where
  "tickers w = filter (\<lambda>t. is_repeating (kind t)) (timers w)"

fun is_text :: "node \<Rightarrow> bool" where
  "is_text (TextNode c) = True"
| "is_text (SpanNode s) = False"

text \<open>The characters revealed in an element, in document order.\<close>

definition revealed :: "world \<Rightarrow> nat \<Rightarrow> node list" where
  "revealed w e = filter is_text (children (elements w e))"

definition blank :: dom_element where
  "blank = \<lparr>children = [], classList = [], style_color = [], style_animationDuration = []\<rparr>"

text \<open>
  The selectors the sample page rejects as malformed: the empty selector, and an id
  selector with no name or with a name that starts with a digit. This is the part of
  the CSS grammar the samples need.
\<close>

definition is_digit :: "char \<Rightarrow> bool" where
  "is_digit c = (c \<in> set ''0123456789'')"

fun malformed_selector :: "string \<Rightarrow> bool" where
  "malformed_selector [] = True"
| "malformed_selector (c # cs) = (c = CHR ''#'' \<and> (case cs of [] \<Rightarrow> True | d # ds \<Rightarrow> is_digit d))"

definition demo_query :: "string \<Rightarrow> lookup" where
  "demo_query s = (if malformed_selector s then Malformed
     else if s = ''#typing-demo'' then Match 0 else NoMatch)"

text \<open>A page whose only element is the default target, \<open>#typing-demo\<close>, as element 0.\<close>

definition demo_page :: world where
  "demo_page = loaded demo_query (\<lambda>i. blank)"

definition only_text :: "string \<Rightarrow> options" where
  "only_text t = no_options\<lparr>opt_text := Some t\<rparr>"

definition only_speed :: "nat \<Rightarrow> options" where
  "only_speed n = no_options\<lparr>opt_speed := Some n\<rparr>"

definition only_animation :: "string \<Rightarrow> options" where
  "only_animation a = no_options\<lparr>opt_animation := Some a\<rparr>"

text \<open>\<open>{text: 'Hi', speed: 10, delay: 5}\<close>\<close>

definition hi_options :: options where
  "hi_options = no_options\<lparr>opt_text := Some ''Hi'', opt_speed := Some 10, opt_delay := Some 5\<rparr>"


text \<open>
  The session of \<open>init({text: 'Hi', speed: 10, delay: 5})\<close> in the middle of its reveal:
  the start delay and one tick have fired, \<open>H\<close> is revealed, ticker 2 is armed.
\<close>

definition mid_reveal :: world where
  "mid_reveal = run 2 (exec [Init hi_options] demo_page)"

definition missing_target :: options where
  "missing_target = no_options\<lparr>opt_selector := Some ''#missing''\<rparr>"

fun is_update_or_destroy :: "call \<Rightarrow> bool" where
  "is_update_or_destroy (UpdateConfig p) = True"
| "is_update_or_destroy Destroy = True"
| "is_update_or_destroy c = False"

text \<open>Every timer handle in use, and the stored one, is below \<open>nextTimer\<close>.\<close>

definition timers_ok :: "world \<Rightarrow> bool" where
  "timers_ok w = (list_all (\<lambda>u. tid u < nextTimer w) (timers w)
     \<and> (case typingInterval w of None \<Rightarrow> True | Some i \<Rightarrow> i < nextTimer w))"

text \<open>
  Timer handles are never reused: the handles in use are distinct and below
  \<open>nextTimer\<close>, and the handle stored in \<open>typingInterval\<close> came from \<open>setInterval\<close>,
  so it never names a one-shot timer.
\<close>

definition handles_ok :: "world \<Rightarrow> bool" where
  "handles_ok w = (distinct (map tid (timers w))
     \<and> list_all (\<lambda>u. tid u < nextTimer w) (timers w)
     \<and> (case typingInterval w of None \<Rightarrow> True
         | Some i \<Rightarrow> i < nextTimer w \<and> list_all (\<lambda>u. tid u \<noteq> i \<or> is_repeating (kind u)) (timers w)))"

definition timer_state :: "world \<Rightarrow> timer list \<times> nat \<times> nat option" where
  "timer_state w = (timers w, nextTimer w, typingInterval w)"

text \<open>A statement preserves a property when the world it leaves has it, thrown or not.\<close>

definition preserves :: "(world \<Rightarrow> bool) \<Rightarrow> (world \<Rightarrow> result) \<Rightarrow> bool" where
  "preserves I s = (\<forall>w. I w \<longrightarrow> I (world_of (s w)))"

text \<open>A statement keeps an observation when it leaves it unchanged, thrown or not.\<close>

definition keeps :: "(world \<Rightarrow> 'a) \<Rightarrow> (world \<Rightarrow> result) \<Rightarrow> bool" where
  "keeps f s = (\<forall>w. f (world_of (s w)) = f w)"

text \<open>
  The statements of \<open>updateConfig\<close> after the text and speed branches: cursor, cursor
  glyph, animation, colour, duration.
\<close>

definition update_rest :: "options \<Rightarrow> world \<Rightarrow> result" where
  "update_rest newConfig = block [
     if_then (\<lambda>w. opt_cursor newConfig \<noteq> None) (update_cursor newConfig),
     if_then (\<lambda>w. truthy_str (opt_cursorStyle newConfig) \<and> cursorElement w \<noteq> None)
       (stmt (\<lambda>w. set_cursor_text (js_str (opt_cursorStyle (config w))) w)),
     update_animation newConfig,
     if_then (\<lambda>w. truthy_str (opt_color newConfig))
       (\<lambda>w. set_style_color (js_str (opt_color (config w))) w),
     if_then (\<lambda>w. truthy_num (opt_animationDuration newConfig))
       (\<lambda>w. set_style_animationDuration (duration_ms (opt_animationDuration (config w))) w)]"

text \<open>What the reveal is made of: the script's counters, the timers, the revealed characters.\<close>

definition reveal_state ::
  "world \<Rightarrow> nat \<times> string \<times> nat option \<times> timer list \<times> nat \<times> nat \<times> options \<times> bool \<times> nat option \<times> (nat \<Rightarrow> node list)" where
  "reveal_state w = (currentIndex w, this_text w, typingInterval w, timers w, nextTimer w, now w,
     config w, isInitialized w, element w, (\<lambda>e. revealed w e))"

text \<open>The cursor node as the children of the target show it: at most one span.\<close>

definition cursor_nodes :: "nat option \<Rightarrow> node list" where
  "cursor_nodes ce = (case ce of None \<Rightarrow> [] | Some s \<Rightarrow> [SpanNode s])"

text \<open>
  The state of a reveal pass after \<open>k\<close> ticks: \<open>k\<close> characters of the text stand before
  the cursor, ticker \<open>i\<close> is the only timer and is due one period after the clock, which
  has advanced \<open>k\<close> periods from the start \<open>T\<close> of the pass.
\<close>

definition revealing ::
  "options \<Rightarrow> string \<Rightarrow> nat \<Rightarrow> nat option \<Rightarrow> nat \<Rightarrow> nat \<Rightarrow> nat \<Rightarrow> world \<Rightarrow> bool" where
  "revealing c t e ce i T k v = (config v = c \<and> this_text v = t \<and> currentIndex v = k
     \<and> element v = Some e \<and> cursorElement v = ce
     \<and> children (elements v e) = map TextNode (take k t) @ cursor_nodes ce
     \<and> timers v = [\<lparr>tid = i, due = T + Suc k * js_ms (opt_speed c), kind = Repeating (js_ms (opt_speed c))\<rparr>]
     \<and> typingInterval v = Some i
     \<and> now v = T + k * js_ms (opt_speed c))"

text \<open>What the cursor invariant reads.\<close>

definition ident :: "world \<Rightarrow> options \<times> bool \<times> nat option \<times> nat option" where
  "ident w = (config w, isInitialized w, element w, cursorElement w)"





text \<open>\<open>{text: 'Yo', cursor: true}\<close>\<close>

definition text_and_cursor :: options where
  "text_and_cursor = no_options\<lparr>opt_text := Some ''Yo'', opt_cursor := Some True\<rparr>"

text \<open>\<open>{text: 'Hi', speed: 10, delay: 5, cursor: false}\<close>\<close>

definition hi_bare :: options where
  "hi_bare = hi_options\<lparr>opt_cursor := Some False\<rparr>"

text \<open>The session of \<open>init(hi_options)\<close> run to its end: all revealed, no timer armed.\<close>

definition finished_session :: world where
  "finished_session = run 4 (exec [Init hi_options] demo_page)"

text \<open>A second \<open>init\<close>, without a cursor, on the finished session.\<close>

definition stale_session :: world where
  "stale_session = world_of (init hi_bare finished_session)"

text \<open>A second \<open>init\<close> while the start delay of the first is still pending.\<close>

definition overlap_session :: world where
  "overlap_session = exec [Init hi_options, Init hi_options] demo_page"

text \<open>
  A running session (\<open>init(hi_options)\<close>, start delay fired) on which \<open>init\<close> is
  called again with a selector that matches nothing.
\<close>

definition reinit_missing :: world where
  "reinit_missing = exec [Init hi_options, Fire 1, Init missing_target] demo_page"

text \<open>The session of \<open>init(hi_bare)\<close> in the middle of its reveal, without a cursor.\<close>

definition bare_mid_reveal :: world where
  "bare_mid_reveal = run 2 (exec [Init hi_bare] demo_page)"

text \<open>
  Options, calls and sessions restricted to what both versions know: selector, text,
  speed, loop, cursor, cursorStyle, delay.
\<close>

definition shared_only :: "options \<Rightarrow> bool" where
  "shared_only c = (opt_animation c = None \<and> opt_color c = None \<and> opt_animationDuration c = None)"

fun shared_call :: "call \<Rightarrow> bool" where
  "shared_call (Init cfg) = shared_only cfg"
| "shared_call (UpdateConfig p) = shared_only p"
| "shared_call Destroy = False"
| "shared_call (Fire i) = True"

text \<open>The options both versions read.\<close>

definition shared_part :: "options \<Rightarrow> string option \<times> string option \<times> nat option \<times> bool option \<times> bool option \<times> string option \<times> nat option" where
  "shared_part c = (opt_selector c, opt_text c, opt_speed c, opt_loop c, opt_cursor c,
     opt_cursorStyle c, opt_delay c)"

text \<open>
  The two versions are in the same session when they agree on everything version 1.0.0
  has: the shared options, the fields of the object, the timers, the clock, the
  console, the spans and the children of every element.
\<close>

definition same_session :: "world \<Rightarrow> world \<Rightarrow> bool" where
  "same_session a b = (shared_part (config a) = shared_part (config b)
     \<and> isInitialized a = isInitialized b \<and> typingInterval a = typingInterval b
     \<and> currentIndex a = currentIndex b \<and> this_text a = this_text b
     \<and> element a = element b \<and> cursorElement a = cursorElement b
     \<and> querySelector a = querySelector b \<and> spans a = spans b \<and> timers a = timers b
     \<and> nextTimer a = nextTimer b \<and> now a = now b \<and> console a = console b
     \<and> (\<lambda>i. children (elements a i)) = (\<lambda>i. children (elements b i))
     \<and> animationClass b = [])"

text \<open>Version 2.0.0 has the animation \<open>none\<close> whenever a callback or an update can run.\<close>

definition plain :: "world \<Rightarrow> bool" where
  "plain b = (opt_animation (config b) = Some ''none'' \<or> (timers b = [] \<and> \<not> isInitialized b))"

text \<open>
  The relation kept while one \<open>updateConfig\<close> runs in both versions: the same session,
  the animation \<open>none\<close>, and a cursor glyph given in the call already merged into the
  configuration.
\<close>

definition rel :: "options \<Rightarrow> world \<Rightarrow> world \<Rightarrow> bool" where
  "rel p a b = (same_session a b \<and> opt_animation (config b) = Some ''none''
     \<and> (truthy_str (opt_cursorStyle p) \<longrightarrow> opt_cursorStyle (config b) = opt_cursorStyle p))"

text \<open>
  Two statements, one of each version, that keep this relation and throw together or
  not at all.
\<close>

definition sim :: "options \<Rightarrow> (world \<Rightarrow> result) \<Rightarrow> (world \<Rightarrow> result) \<Rightarrow> bool" where
  "sim p s1 s2 = (\<forall>a b. rel p a b \<longrightarrow>
     rel p (world_of (s1 a)) (world_of (s2 b)) \<and> returns (s1 a) = returns (s2 b))"

section \<open>Basic facts\<close>

lemma world_of_simps [simp]: "world_of (Inr w) = w" "world_of (Inl (x, w)) = w"
  by (simp_all add: world_of_def)

lemma returns_world_of: "returns r \<Longrightarrow> r = Inr (world_of r)"
  by (cases r) (simp_all add: returns_def)

lemma returns_Inr [simp]: "returns (Inr w)"
  by (simp add: returns_def)

section \<open>Statements that leave the reveal alone\<close>

lemma keepsI: "(\<And>w. f (world_of (s w)) = f w) \<Longrightarrow> keeps f s"
  by (simp add: keeps_def)

lemma keepsD: "keeps f s \<Longrightarrow> f (world_of (s w)) = f w"
  by (simp add: keeps_def)

lemma keeps_stmt: "(\<And>w. f (g w) = f w) \<Longrightarrow> keeps f (stmt g)"
  by (simp add: keeps_def stmt_def)

lemma keeps_if_then: "keeps f s \<Longrightarrow> keeps f (if_then c s)"
  by (simp add: keeps_def if_then_def)

lemma world_of_block_Cons:
  "world_of (block (s # ss) w) = (case s w of Inl x \<Rightarrow> world_of (s w) | Inr w' \<Rightarrow> world_of (block ss w'))"
  by (simp split: sum.splits)

lemma keeps_block: "list_all (keeps f) ss \<Longrightarrow> keeps f (block ss)"
proof (induction ss)
  case Nil
  show ?case by (simp add: keeps_def)
next
  case (Cons s ss)
  then have s: "keeps f s" and r: "keeps f (block ss)"
    by simp_all
  show ?case
  proof (rule keepsI)
    fix w
    show "f (world_of (block (s # ss) w)) = f w"
    proof (cases "s w")
      case (Inl x)
      then show ?thesis using keepsD [OF s, of w] by simp
    next
      case (Inr w')
      then show ?thesis using keepsD [OF s, of w] keepsD [OF r, of w'] by simp
    qed
  qed
qed

lemma filter_text_detach [simp]:
  "filter (\<lambda>n. n \<noteq> SpanNode s \<and> is_text n) xs = filter is_text xs"
  by (induction xs) auto

lemma keeps_reveal_update_cursor: "keeps reveal_state (update_cursor p)"
  by (rule keepsI)
    (auto simp: update_cursor_def reveal_state_def revealed_def stmt_def create_cursor_def
      appendChild_span_def removeChild_span_def set_children_def detach_def fun_eq_iff
      split: option.splits)

lemma keeps_reveal_classList_remove: "keeps reveal_state (\<lambda>w. classList_remove (g w) w)"
  by (rule keepsI)
    (auto simp: classList_remove_def reveal_state_def revealed_def fun_eq_iff split: option.splits)

lemma keeps_reveal_classList_add: "keeps reveal_state (\<lambda>w. classList_add (g w) w)"
  by (rule keepsI)
    (auto simp: classList_add_def reveal_state_def revealed_def fun_eq_iff split: option.splits)

lemma keeps_reveal_duration: "keeps reveal_state (\<lambda>w. set_style_animationDuration (g w) w)"
  by (rule keepsI)
    (auto simp: set_style_animationDuration_def reveal_state_def revealed_def fun_eq_iff split: option.splits)

lemma keeps_reveal_color: "keeps reveal_state (\<lambda>w. set_style_color (g w) w)"
  by (rule keepsI)
    (auto simp: set_style_color_def reveal_state_def revealed_def fun_eq_iff split: option.splits)

lemma keeps_ite: "keeps f a \<Longrightarrow> keeps f b \<Longrightarrow> keeps f (\<lambda>w. if c w then a w else b w)"
  by (simp add: keeps_def)

lemma keeps_reveal_update_animation: "keeps reveal_state (update_animation p)"
proof -
  have a: "keeps reveal_state (block [stmt (\<lambda>w. w\<lparr>animationClass := t\<rparr>),
             (\<lambda>w. classList_add (animationClass w) w),
             (\<lambda>w. set_style_animationDuration (duration_ms (opt_animationDuration (config w))) w)])" for t
    by (rule keeps_block)
      (simp add: keeps_stmt keeps_reveal_classList_add keeps_reveal_duration reveal_state_def revealed_def)
  have b: "keeps reveal_state (block [stmt (\<lambda>w. w\<lparr>animationClass := []\<rparr>),
             set_style_animationDuration []])"
    using keeps_reveal_duration [of "\<lambda>w. []"]
    by (intro keeps_block) (simp add: keeps_stmt reveal_state_def revealed_def)
  have c: "keeps reveal_state (\<lambda>w. if opt_animation p \<noteq> Some ''none''
       then block [stmt (\<lambda>w. w\<lparr>animationClass := animation_token (opt_animation p)\<rparr>),
             (\<lambda>w. classList_add (animationClass w) w),
             (\<lambda>w. set_style_animationDuration (duration_ms (opt_animationDuration (config w))) w)] w
       else block [stmt (\<lambda>w. w\<lparr>animationClass := []\<rparr>), set_style_animationDuration []] w)"
    using a b by (cases "opt_animation p \<noteq> Some ''none''") (simp_all del: block.simps)
  show ?thesis
    unfolding update_animation_def
    by (intro keeps_if_then keeps_block)
      (simp add: keeps_if_then keeps_reveal_classList_remove c)
qed

lemma keeps_reveal_set_cursor_text: "keeps reveal_state (stmt (\<lambda>w. set_cursor_text (g w) w))"
  by (rule keeps_stmt) (simp add: set_cursor_text_def reveal_state_def revealed_def split: option.splits)

lemma keeps_reveal_update_rest: "keeps reveal_state (update_rest p)"
  unfolding update_rest_def
  by (intro keeps_block)
    (simp add: keeps_if_then keeps_reveal_update_cursor keeps_reveal_set_cursor_text
      keeps_reveal_update_animation keeps_reveal_color keeps_reveal_duration)

lemma updateConfig_parts:
  "isInitialized w \<Longrightarrow> updateConfig p w =
     (case block [stmt (\<lambda>w. w\<lparr>config := spread (config w) p\<rparr>), update_text p resetTyping,
                  update_speed p] w of
        Inl x \<Rightarrow> Inl x | Inr w' \<Rightarrow> update_rest p w')"
  by (simp add: updateConfig_def update_rest_def stmt_def split: sum.splits)

lemma over_Some [simp]: "over a (Some x) = Some x"
  by (simp add: over_def)

lemma over_None [simp]: "over a None = a"
  by (simp add: over_def)

lemma spread_simps [simp]:
  "opt_selector (spread a b) = over (opt_selector a) (opt_selector b)"
  "opt_text (spread a b) = over (opt_text a) (opt_text b)"
  "opt_speed (spread a b) = over (opt_speed a) (opt_speed b)"
  "opt_loop (spread a b) = over (opt_loop a) (opt_loop b)"
  "opt_cursor (spread a b) = over (opt_cursor a) (opt_cursor b)"
  "opt_cursorStyle (spread a b) = over (opt_cursorStyle a) (opt_cursorStyle b)"
  "opt_delay (spread a b) = over (opt_delay a) (opt_delay b)"
  "opt_animation (spread a b) = over (opt_animation a) (opt_animation b)"
  "opt_color (spread a b) = over (opt_color a) (opt_color b)"
  "opt_animationDuration (spread a b) = over (opt_animationDuration a) (opt_animationDuration b)"
  by (simp_all add: spread_def)

section \<open>Timer handles stay well-formed\<close>

text \<open>Every call and every timer firing preserves \<open>handles_ok\<close>, also when it throws.\<close>

lemma preservesI: "(\<And>w. I w \<Longrightarrow> I (world_of (s w))) \<Longrightarrow> preserves I s"
  by (simp add: preserves_def)

lemma preservesD: "preserves I s \<Longrightarrow> I w \<Longrightarrow> I (world_of (s w))"
  by (simp add: preserves_def)

lemma preserves_stmt: "(\<And>w. I w \<Longrightarrow> I (g w)) \<Longrightarrow> preserves I (stmt g)"
  by (simp add: preserves_def stmt_def)

lemma preserves_if_then: "preserves I s \<Longrightarrow> preserves I (if_then c s)"
  by (simp add: preserves_def if_then_def)

lemma preserves_block: "list_all (preserves I) ss \<Longrightarrow> preserves I (block ss)"
proof (induction ss)
  case Nil
  show ?case by (simp add: preserves_def)
next
  case (Cons s ss)
  then have s: "preserves I s" and r: "preserves I (block ss)"
    by simp_all
  show ?case
  proof (rule preservesI)
    fix w
    assume w: "I w"
    show "I (world_of (block (s # ss) w))"
    proof (cases "s w")
      case (Inl x)
      then show ?thesis using preservesD [OF s w] by simp
    next
      case (Inr w')
      then show ?thesis using preservesD [OF s w] preservesD [OF r, of w'] by simp
    qed
  qed
qed

lemma handles_ok_timer_state: "timer_state w' = timer_state w \<Longrightarrow> handles_ok w' = handles_ok w"
  by (simp add: timer_state_def handles_ok_def split: option.splits)

lemma keeps_preserves:
  assumes "keeps timer_state s"
  shows "preserves handles_ok s"
proof (rule preservesI)
  fix w
  assume "handles_ok w"
  then show "handles_ok (world_of (s w))"
    using handles_ok_timer_state [OF keepsD [OF assms, of w]] by simp
qed

lemma keeps_timer_state_dom:
  "keeps timer_state (\<lambda>w. classList_remove (g w) w)"
  "keeps timer_state (\<lambda>w. classList_add (g w) w)"
  "keeps timer_state (\<lambda>w. set_style_animationDuration (g w) w)"
  "keeps timer_state (\<lambda>w. set_style_color (g w) w)"
  "keeps timer_state clear_innerHTML"
  "keeps timer_state (\<lambda>w. appendChild_span (h w) w)"
  "keeps timer_state reveal_char"
  "keeps timer_state (update_cursor p)"
  by (auto simp: keeps_def timer_state_def classList_remove_def classList_add_def
      set_style_animationDuration_def set_style_color_def clear_innerHTML_def set_children_def
      appendChild_span_def reveal_char_def insertBefore_text_def appendChild_text_def
      update_cursor_def removeChild_span_def create_cursor_def stmt_def
      split: option.splits)

lemma handles_ok_clearInterval: "handles_ok w \<Longrightarrow> handles_ok (clearInterval h w)"
  by (cases h) (auto simp: handles_ok_def clearInterval_def distinct_map_filter list_all_iff
      split: option.splits)

lemma handles_ok_setTimeout:
  assumes "handles_ok w"
  shows "handles_ok (setTimeout d w)"
proof -
  have "tid u \<noteq> nextTimer w" if "u \<in> set (timers w)" for u
    using assms that by (auto simp: handles_ok_def list_all_iff)
  with assms show ?thesis
    by (auto simp: handles_ok_def setTimeout_def list_all_iff less_Suc_eq split: option.splits)
qed

lemma handles_ok_startTyping:
  assumes "handles_ok w"
  shows "handles_ok (startTyping w)"
proof -
  have "tid u \<noteq> nextTimer w" if "u \<in> set (timers w)" for u
    using assms that by (auto simp: handles_ok_def list_all_iff)
  with assms show ?thesis
    by (auto simp: handles_ok_def startTyping_def setInterval_def list_all_iff less_Suc_eq
        split: option.splits)
qed


lemma preserves_stmt_frame:
  "(\<And>w. timer_state (g w) = timer_state w) \<Longrightarrow> preserves handles_ok (stmt g)"
  by (intro keeps_preserves keeps_stmt)

lemma preserves_resetTyping: "preserves handles_ok resetTyping"
  unfolding resetTyping_def
  by (intro keeps_preserves keeps_block)
    (simp add: keeps_stmt keeps_if_then keeps_block keeps_timer_state_dom timer_state_def)

lemma preserves_clear: "preserves handles_ok (stmt (\<lambda>w. clearInterval (typingInterval w) w))"
  by (rule preserves_stmt) (rule handles_ok_clearInterval)

lemma preserves_timeout: "preserves handles_ok (stmt (\<lambda>w. setTimeout (g w) w))"
  by (rule preserves_stmt) (rule handles_ok_setTimeout)

lemma preserves_tick: "preserves handles_ok tick"
proof (rule preservesI)
  fix w
  assume w: "handles_ok w"
  have a: "preserves handles_ok (block [reveal_char, stmt (\<lambda>w. w\<lparr>currentIndex := Suc (currentIndex w)\<rparr>)])"
    by (intro keeps_preserves keeps_block) (simp add: keeps_stmt keeps_timer_state_dom timer_state_def)
  have b: "preserves handles_ok (block [stmt (\<lambda>w. clearInterval (typingInterval w) w),
                 if_then (\<lambda>w. truthy_bool (opt_loop (config w)))
                   (block [resetTyping, stmt (\<lambda>w. setTimeout (js_ms (opt_delay (config w))) w)])])"
    by (intro preserves_block)
      (simp add: preserves_clear preserves_if_then preserves_block preserves_resetTyping preserves_timeout)
  show "handles_ok (world_of (tick w))"
    using preservesD [OF a w] preservesD [OF b w]
    by (simp add: tick_def tick_with_def del: block.simps)
qed

lemma handles_ok_rearm: "handles_ok w \<Longrightarrow> handles_ok (rearm i p w)"
  by (auto simp: handles_ok_def rearm_def list_all_iff distinct_map comp_def inj_on_def
      split: option.splits)

lemma handles_ok_fire:
  assumes "handles_ok w"
  shows "handles_ok (world_of (fire i w))"
proof (cases "find (\<lambda>t. tid t = i) (timers w)")
  case None
  with assms show ?thesis by (simp add: fire_def fire_with_def)
next
  case (Some t)
  let ?w1 = "w\<lparr>now := max (now w) (due t)\<rparr>"
  have w1: "handles_ok ?w1"
    using assms handles_ok_timer_state [of ?w1 w] by (simp add: timer_state_def)
  show ?thesis
  proof (cases "kind t")
    case OneShot
    have "handles_ok (?w1\<lparr>timers := filter (\<lambda>u. tid u \<noteq> i) (timers ?w1)\<rparr>)"
      using handles_ok_clearInterval [OF w1, of "Some i"] by (simp add: clearInterval_def)
    from handles_ok_startTyping [OF this] Some OneShot show ?thesis
      by (simp add: fire_def fire_with_def Let_def)
  next
    case (Repeating p)
    from preservesD [OF preserves_tick w1] have "handles_ok (rearm i p (world_of (tick ?w1)))"
      by (rule handles_ok_rearm)
    with Some Repeating show ?thesis
      by (auto simp: fire_def fire_with_def Let_def split: sum.splits)
  qed
qed

lemma handles_ok_destroy: "handles_ok w \<Longrightarrow> handles_ok (world_of (destroy w))"
proof -
  have "preserves handles_ok (block [
     stmt (\<lambda>w. clearInterval (typingInterval w) w),
     clear_innerHTML,
     (\<lambda>w. classList_remove (animationClass w) w),
     stmt (\<lambda>w. w\<lparr>animationClass := []\<rparr>),
     stmt (\<lambda>w. w\<lparr>isInitialized := False\<rparr>)])"
    by (intro preserves_block)
      (simp add: preserves_clear keeps_preserves keeps_timer_state_dom preserves_stmt_frame timer_state_def)
  then show "handles_ok w \<Longrightarrow> handles_ok (world_of (destroy w))"
    using preservesD by (auto simp: destroy_def simp del: block.simps)
qed


lemma keeps_reveal_timer: "keeps reveal_state s \<Longrightarrow> keeps timer_state s"
  by (simp add: keeps_def reveal_state_def timer_state_def)

lemma handles_ok_updateConfig:
  assumes "handles_ok w"
  shows "handles_ok (world_of (updateConfig p w))"
proof (cases "isInitialized w")
  case False
  with assms show ?thesis by (simp add: updateConfig_def)
next
  case True
  let ?front = "block [stmt (\<lambda>w. w\<lparr>config := spread (config w) p\<rparr>), update_text p resetTyping,
                  update_speed p]"
  have t: "preserves handles_ok (update_text p resetTyping)"
    unfolding update_text_def
    by (intro preserves_if_then preserves_block)
      (simp add: preserves_stmt_frame timer_state_def preserves_resetTyping preserves_clear
        preserves_timeout)
  have s: "preserves handles_ok (update_speed p)"
    unfolding update_speed_def
    by (intro preserves_if_then preserves_block)
      (simp add: preserves_clear preserves_stmt handles_ok_startTyping)
  have "preserves handles_ok ?front"
    by (intro preserves_block) (simp add: preserves_stmt_frame timer_state_def t s)
  from preservesD [OF this assms] have f: "handles_ok (world_of (?front w))" .
  have r: "preserves handles_ok (update_rest p)"
    by (intro keeps_preserves keeps_reveal_timer keeps_reveal_update_rest)
  show ?thesis
  proof (cases "?front w")
    case (Inl x)
    with f show ?thesis
      unfolding updateConfig_parts [OF True] by (cases x) simp
  next
    case (Inr w3)
    with f preservesD [OF r, of w3] show ?thesis
      unfolding updateConfig_parts [OF True] by simp
  qed
qed

lemma handles_ok_init:
  assumes "handles_ok w"
  shows "handles_ok (world_of (init cfg w))"
proof (cases "querySelector w (js_str (opt_selector (spread defaultOptions cfg)))")
  case Malformed
  let ?w' = "w\<lparr>config := spread defaultOptions cfg\<rparr>"
  have "handles_ok ?w'"
    using assms handles_ok_timer_state [of ?w' w] by (simp add: timer_state_def)
  with Malformed show ?thesis
    by (simp add: init_def Let_def)
next
  case NoMatch
  let ?w' = "w\<lparr>config := spread defaultOptions cfg, element := None,
     console := console w @ [not_found_message (js_str (opt_selector (spread defaultOptions cfg)))]\<rparr>"
  have "handles_ok ?w'"
    using assms handles_ok_timer_state [of ?w' w] by (simp add: timer_state_def)
  with NoMatch show ?thesis
    by (simp add: init_def Let_def)
next
  case (Match e)
  let ?w2 = "w\<lparr>config := spread defaultOptions cfg, element := Some e\<rparr>"
  have w2: "handles_ok ?w2"
    using assms handles_ok_timer_state [of ?w2 w] by (simp add: timer_state_def)
  have an: "preserves handles_ok (block [stmt (\<lambda>w. w\<lparr>animationClass := animation_token (opt_animation (config w))\<rparr>),
                     (\<lambda>w. classList_add (animationClass w) w),
                     (\<lambda>w. set_style_animationDuration (duration_ms (opt_animationDuration (config w))) w)])"
    by (intro preserves_block)
      (simp add: preserves_stmt_frame timer_state_def keeps_preserves keeps_timer_state_dom)
  have cu: "preserves handles_ok (block [stmt create_cursor, (\<lambda>w. appendChild_span (cursorElement w) w)])"
    by (intro preserves_block)
      (simp add: preserves_stmt_frame timer_state_def create_cursor_def keeps_preserves keeps_timer_state_dom)
  have "preserves handles_ok (block [
           (\<lambda>w. set_style_color (js_str (opt_color (config w))) w),
           stmt (\<lambda>w. w\<lparr>this_text := js_str (opt_text (config w))\<rparr>),
           stmt (\<lambda>w. w\<lparr>currentIndex := 0\<rparr>),
           clear_innerHTML,
           if_then (\<lambda>w. opt_animation (config w) \<noteq> Some ''none'')
             (block [stmt (\<lambda>w. w\<lparr>animationClass := animation_token (opt_animation (config w))\<rparr>),
                     (\<lambda>w. classList_add (animationClass w) w),
                     (\<lambda>w. set_style_animationDuration (duration_ms (opt_animationDuration (config w))) w)]),
           if_then (\<lambda>w. truthy_bool (opt_cursor (config w)))
             (block [stmt create_cursor, (\<lambda>w. appendChild_span (cursorElement w) w)]),
           stmt (\<lambda>w. setTimeout (js_ms (opt_delay (config w))) w),
           stmt (\<lambda>w. w\<lparr>isInitialized := True\<rparr>)])"
    by (intro preserves_block)
      (simp add: preserves_stmt_frame timer_state_def keeps_preserves keeps_timer_state_dom
        preserves_if_then an cu preserves_timeout del: block.simps)
  from preservesD [OF this w2] Match show ?thesis
    by (simp add: init_def Let_def del: block.simps)
qed

lemma handles_ok_exec: "handles_ok w \<Longrightarrow> handles_ok (exec cs w)"
proof (induction cs arbitrary: w)
  case Nil
  then show ?case by simp
next
  case (Cons c cs)
  have "handles_ok (world_of (step c w))"
    using Cons.prems handles_ok_init handles_ok_updateConfig handles_ok_destroy handles_ok_fire
    by (cases c) simp_all
  then show ?case
    using Cons.IH by simp
qed

lemma handles_ok_loaded: "handles_ok (exec cs (loaded doc els))"
  by (rule handles_ok_exec) (simp add: handles_ok_def loaded_def)


lemma handles_ok_timers_ok: "handles_ok w \<Longrightarrow> timers_ok w"
  by (auto simp: handles_ok_def timers_ok_def split: option.splits)


section \<open>Destroy\<close>

text \<open>
  Claim C8. Calling \<open>destroy\<close> twice in a row leaves the Typify object, the timers and
  the visual tree exactly as one call leaves them. This holds whether or not the first
  call returns normally; when it does, the second call is the early return of the
  \<open>isInitialized\<close> guard.
\<close>

theorem C8_destroy_twice:
  "world_of (destroy (world_of (destroy w))) = world_of (destroy w)
   \<and> (destroy w = Inr w' \<longrightarrow> destroy w' = Inr w')"
  by (auto simp: destroy_def stmt_def clear_innerHTML_def classList_remove_def
      clearInterval_def set_children_def split: option.splits if_splits)

theorem C8_destroy_twice_witness:
  "destroy (exec [Init (only_animation ''fade'')] demo_page)
     = Inr (world_of (destroy (exec [Init (only_animation ''fade'')] demo_page)))
   \<and> destroy (world_of (destroy (exec [Init (only_animation ''fade'')] demo_page)))
     = Inr (world_of (destroy (exec [Init (only_animation ''fade'')] demo_page)))"
proof -
  let ?W = "exec [Init (only_animation ''fade'')] demo_page"
  have "returns (destroy ?W)"
    by code_simp
  then have h: "destroy ?W = Inr (world_of (destroy ?W))"
    by (rule returns_world_of)
  from C8_destroy_twice [of ?W "world_of (destroy ?W)"] h show ?thesis
    by simp
qed

section \<open>Changing the animation\<close>

text \<open>
  Claim C4, evaluated on the code. After \<open>init({animation: 'fade'})\<close>, the call
  \<open>updateConfig({animation: 'slide'})\<close> stores the new value in the configuration and
  changes nothing else: the old tag stays on the target and in \<open>animationClass\<close>, and
  no new tag is applied.
\<close>

theorem C4_animation_change_is_ignored:
  "(let w = exec [Init (only_animation ''fade''), UpdateConfig (only_animation ''slide'')] demo_page
    in opt_animation (config w) = Some ''slide''
     \<and> animationClass w = ''typify-animation-fade''
     \<and> classList (elements w 0) = [''typify-animation-fade''])"
  by code_simp

section \<open>One ticker at a time\<close>

text \<open>
  Claim C2, evaluated on the code. \<open>init({text: 'Hi', speed: 10, delay: 5})\<close> followed at
  once by \<open>updateConfig({speed: 20})\<close> arms ticker 2 while the start delay of \<open>init\<close>
  (timer 1) is still pending. When that delay fires, \<open>startTyping\<close> arms ticker 3 and
  cancels nothing: two tickers are armed, and only the second is known to the object.
\<close>

theorem C2_two_tickers_armed:
  "(let w = run 1 (exec [Init hi_options, UpdateConfig (only_speed 20)] demo_page)
    in map tid (tickers w) = [2, 3] \<and> typingInterval w = Some 3)"
  by code_simp

section \<open>Changing the speed\<close>

text \<open>
  Claim C6, evaluated on the code. The guard of the speed branch is
  \<open>if (newConfig.speed)\<close>, and 0 is falsy: \<open>updateConfig({speed: 0})\<close> in the middle of
  a reveal stores the new speed in the configuration and leaves the ticker alone.
  Ticker 2 stays armed with its period of 10 and its due time, nothing is cancelled and
  nothing is restarted, so the configuration says 0 while the reveal runs at 10.
\<close>

theorem C6_speed_zero_is_ignored:
  "opt_speed (config mid_reveal) = Some 10
   \<and> tickers mid_reveal = [\<lparr>tid = 2, due = 25, kind = Repeating 10\<rparr>]
   \<and> opt_speed (config (world_of (updateConfig (only_speed 0) mid_reveal))) = Some 0
   \<and> timers (world_of (updateConfig (only_speed 0) mid_reveal)) = [\<lparr>tid = 2, due = 25, kind = Repeating 10\<rparr>]
   \<and> typingInterval (world_of (updateConfig (only_speed 0) mid_reveal)) = Some 2"
  by code_simp

text \<open>
  For a speed other than 0 the branch does what the claim says. When the animator is
  initialized and \<open>updateConfig\<close> is given such a speed (and no text that differs from
  the current one), then whatever else the call carries: \<open>currentIndex\<close>, the text and
  the revealed characters of every element are unchanged, the ticker known to the object
  is cancelled, and a new ticker with the new period is armed at once and becomes the
  ticker known to the object.
\<close>

lemma speed_restart:
  assumes "isInitialized w" and "opt_speed p = Some n" and "n \<noteq> 0"
    and "\<not> (truthy_str (opt_text p) \<and> opt_text p \<noteq> Some (this_text w))"
  shows "currentIndex (world_of (updateConfig p w)) = currentIndex w
    \<and> this_text (world_of (updateConfig p w)) = this_text w
    \<and> revealed (world_of (updateConfig p w)) e = revealed w e
    \<and> timers (world_of (updateConfig p w))
        = filter (\<lambda>t. Some (tid t) \<noteq> typingInterval w) (timers w)
          @ [\<lparr>tid = nextTimer w, due = now w + n, kind = Repeating n\<rparr>]
    \<and> typingInterval (world_of (updateConfig p w)) = Some (nextTimer w)"
proof -
  let ?w3 = "startTyping (clearInterval (typingInterval w) (w\<lparr>config := spread (config w) p\<rparr>))"
  have front: "block [stmt (\<lambda>w. w\<lparr>config := spread (config w) p\<rparr>), update_text p resetTyping,
                  update_speed p] w = Inr ?w3"
    using assms(2-4) by (auto simp: stmt_def update_text_def update_speed_def if_then_def truthy_num_def)
  have "updateConfig p w = update_rest p ?w3"
    unfolding updateConfig_parts [OF assms(1)] front by simp
  then have "reveal_state (world_of (updateConfig p w)) = reveal_state ?w3"
    using keepsD [OF keeps_reveal_update_rest, of p ?w3] by simp
  moreover have "filter (\<lambda>t. tid t \<noteq> i) ts = filter (\<lambda>t. Some (tid t) \<noteq> Some i) ts" for i ts
    by simp
  ultimately show ?thesis
    using assms(2)
    by (auto simp: reveal_state_def startTyping_def setInterval_def clearInterval_def js_ms_def
        revealed_def fun_eq_iff split: option.splits)
qed


section \<open>Changing the text\<close>

text \<open>
  Claim C5, evaluated on the code. \<open>updateConfig\<close> merges the new options first and
  calls \<open>resetTyping\<close> before \<open>clearInterval\<close>. In a session without a cursor,
  \<open>updateConfig({text: 'Yo', cursor: true})\<close> in the middle of a reveal makes
  \<open>resetTyping\<close> append the cursor, which does not exist yet: \<open>appendChild(null)\<close>
  throws a TypeError. The text and the content have been reset by then, but ticker 2 is
  not cancelled and no start delay is armed: the old ticker goes on with the new text.
\<close>

theorem C5_text_change_throws_before_cancel:
  "this_text bare_mid_reveal = ''Hi''
   \<and> timers bare_mid_reveal = [\<lparr>tid = 2, due = 25, kind = Repeating 10\<rparr>]
   \<and> thrown (updateConfig text_and_cursor bare_mid_reveal) = Some TypeError
   \<and> this_text (world_of (updateConfig text_and_cursor bare_mid_reveal)) = ''Yo''
   \<and> currentIndex (world_of (updateConfig text_and_cursor bare_mid_reveal)) = 0
   \<and> children (elements (world_of (updateConfig text_and_cursor bare_mid_reveal)) 0) = []
   \<and> timers (world_of (updateConfig text_and_cursor bare_mid_reveal))
       = [\<lparr>tid = 2, due = 25, kind = Repeating 10\<rparr>]
   \<and> typingInterval (world_of (updateConfig text_and_cursor bare_mid_reveal)) = Some 2"
  by code_simp

text \<open>
  The same happens with a text alone once the animation option has been changed:
  \<open>updateConfig({animation: 'fade'})\<close> stores the animation but applies no tag, so the
  reset of a later \<open>updateConfig({text: 'Yo'})\<close> calls \<open>classList.remove('')\<close>, which
  throws a SyntaxError before the ticker is cancelled.
\<close>

lemma text_change_after_animation_throws:
  "thrown (updateConfig (only_text ''Yo'') (world_of (updateConfig (only_animation ''fade'') mid_reveal)))
     = Some SyntaxError
   \<and> timers (world_of (updateConfig (only_text ''Yo'')
         (world_of (updateConfig (only_animation ''fade'') mid_reveal))))
       = [\<lparr>tid = 2, due = 25, kind = Repeating 10\<rparr>]"
  by code_simp

text \<open>
  The empty string is falsy: \<open>updateConfig({text: ''})\<close> in the middle of a reveal
  stores the new text in the configuration and resets nothing.
\<close>

lemma empty_text_is_ignored:
  "this_text mid_reveal = ''Hi''
   \<and> opt_text (config (world_of (updateConfig (only_text []) mid_reveal))) = Some []
   \<and> this_text (world_of (updateConfig (only_text []) mid_reveal)) = ''Hi''
   \<and> currentIndex (world_of (updateConfig (only_text []) mid_reveal)) = 1
   \<and> revealed (world_of (updateConfig (only_text []) mid_reveal)) 0 = [TextNode CHR ''H'']
   \<and> timers (world_of (updateConfig (only_text []) mid_reveal)) = [\<lparr>tid = 2, due = 25, kind = Repeating 10\<rparr>]"
  by code_simp

lemma resetTyping_returns:
  assumes "element w = Some e"
    and "opt_animation (config w) \<noteq> Some ''none'' \<longrightarrow> token_error (animationClass w) = None"
    and "truthy_bool (opt_cursor (config w)) \<longrightarrow> cursorElement w \<noteq> None"
  shows "\<exists>w'. resetTyping w = Inr w' \<and> currentIndex w' = 0 \<and> this_text w' = this_text w
    \<and> timers w' = timers w \<and> typingInterval w' = typingInterval w \<and> nextTimer w' = nextTimer w
    \<and> now w' = now w \<and> config w' = config w \<and> revealed w' e = []"
  using assms
  by (auto simp: resetTyping_def stmt_def if_then_def clear_innerHTML_def set_children_def
      classList_remove_def classList_add_def appendChild_span_def detach_def revealed_def
      split: option.splits)

lemma find_append_new:
  "list_all (\<lambda>u. tid u < n) ts \<Longrightarrow> tid t = n \<Longrightarrow> find (\<lambda>u. tid u = n) (ts @ t # us) = Some t"
  by (induction ts) auto

lemma list_all_filter: "list_all P xs \<Longrightarrow> list_all P (filter Q xs)"
  by (induction xs) auto

text \<open>
  Where the reset can run, the branch does what the claim says. Let the animator be
  initialized with a resolved target, and let \<open>updateConfig\<close> carry a text that is not
  empty and differs from the current one; let the animation tag to re-apply be a valid
  class token and a cursor to re-attach exist. Then \<open>currentIndex\<close> is 0, the new text
  is the text to reveal, no character is left in the target, the ticker known to the
  object is cancelled, and a one-shot start delay of the configured length is armed;
  when it fires it arms the reveal ticker.
\<close>

lemma text_change_resets:
  assumes "isInitialized w" and "element w = Some e"
    and "opt_text p = Some t" and "t \<noteq> []" and "t \<noteq> this_text w"
    and "handles_ok w"
    and "opt_animation (spread (config w) p) \<noteq> Some ''none'' \<longrightarrow> token_error (animationClass w) = None"
    and "truthy_bool (opt_cursor (spread (config w) p)) \<longrightarrow> cursorElement w \<noteq> None"
  shows "(let w' = world_of (updateConfig p w);
              d = js_ms (opt_delay (spread (config w) p));
              n = js_ms (opt_speed (spread (config w) p))
          in currentIndex w' = 0 \<and> this_text w' = t \<and> revealed w' e = []
           \<and> timers w' = filter (\<lambda>u. Some (tid u) \<noteq> typingInterval w) (timers w)
               @ [\<lparr>tid = nextTimer w, due = now w + d, kind = OneShot\<rparr>]
               @ (if truthy_num (opt_speed p)
                  then [\<lparr>tid = Suc (nextTimer w), due = now w + n, kind = Repeating n\<rparr>] else [])
           \<and> typingInterval (world_of (fire (nextTimer w) w')) = Some (nextTimer w')
           \<and> \<lparr>tid = nextTimer w', due = now w + d + n, kind = Repeating n\<rparr>
               \<in> set (tickers (world_of (fire (nextTimer w) w'))))"
proof -
  let ?c = "spread (config w) p"
  let ?w2 = "w\<lparr>config := ?c, this_text := t\<rparr>"
  obtain r where r: "resetTyping ?w2 = Inr r" "currentIndex r = 0" "this_text r = t"
    "timers r = timers w" "typingInterval r = typingInterval w" "nextTimer r = nextTimer w"
    "now r = now w" "config r = ?c" "revealed r e = []"
    using resetTyping_returns [of ?w2 e] assms(2,7,8) by auto
  let ?w3 = "setTimeout (js_ms (opt_delay ?c)) (clearInterval (typingInterval w) r)"
  let ?w4 = "if truthy_num (opt_speed p) then startTyping (clearInterval (typingInterval w) ?w3) else ?w3"
  have front: "block [stmt (\<lambda>w. w\<lparr>config := spread (config w) p\<rparr>), update_text p resetTyping,
                  update_speed p] w = Inr ?w4"
    using assms(3-5) r
    by (simp add: stmt_def update_text_def update_speed_def if_then_def truthy_str_def js_str_def
        setTimeout_def clearInterval_def startTyping_def setInterval_def split: option.splits)
  have "updateConfig p w = update_rest p ?w4"
    unfolding updateConfig_parts [OF assms(1)] front by simp
  then have same: "reveal_state (world_of (updateConfig p w)) = reveal_state ?w4"
    using keepsD [OF keeps_reveal_update_rest, of p ?w4] by simp
  note tok = handles_ok_timers_ok [OF assms(6)]
  have old: "list_all (\<lambda>u. tid u < nextTimer w) (filter (\<lambda>u. Some (tid u) \<noteq> typingInterval w) (timers w))"
    using tok by (simp add: timers_ok_def list_all_filter)
  have ti: "typingInterval w \<noteq> Some (nextTimer w)"
    using tok by (auto simp: timers_ok_def)
  have cl: "timers (clearInterval h v) = filter (\<lambda>u. Some (tid u) \<noteq> h) (timers v)" for h v
    by (cases h) (simp_all add: clearInterval_def)
  have tm: "timers ?w4 = filter (\<lambda>u. Some (tid u) \<noteq> typingInterval w) (timers w)
               @ [\<lparr>tid = nextTimer w, due = now w + js_ms (opt_delay ?c), kind = OneShot\<rparr>]
               @ (if truthy_num (opt_speed p)
                  then [\<lparr>tid = Suc (nextTimer w), due = now w + js_ms (opt_speed ?c),
                         kind = Repeating (js_ms (opt_speed ?c))\<rparr>] else [])"
    using r ti by (simp add: cl setTimeout_def startTyping_def setInterval_def clearInterval_def split: option.splits)
  have fields: "currentIndex ?w4 = 0" "this_text ?w4 = t" "revealed ?w4 e = []" "config ?w4 = ?c"
    "now ?w4 = now w"
    using r by (simp_all add: setTimeout_def startTyping_def setInterval_def clearInterval_def
        revealed_def split: option.splits)
  let ?w' = "world_of (updateConfig p w)"
  have eqs: "currentIndex ?w' = 0" "this_text ?w' = t" "revealed ?w' e = []" "config ?w' = ?c"
    "now ?w' = now w" "timers ?w' = timers ?w4" "nextTimer ?w' = nextTimer ?w4"
    using same fields by (simp_all add: reveal_state_def fun_eq_iff)
  have fnd: "find (\<lambda>u. tid u = nextTimer w) (timers ?w') = Some \<lparr>tid = nextTimer w, due = now w + js_ms (opt_delay ?c), kind = OneShot\<rparr>"
    unfolding eqs(6) tm by (simp add: find_append_new [OF old])
  have fr: "fire (nextTimer w) ?w' = Inr (startTyping (?w'\<lparr>now := max (now ?w') (now w + js_ms (opt_delay ?c)),
      timers := filter (\<lambda>u. tid u \<noteq> nextTimer w) (timers ?w')\<rparr>))"
    by (simp add: fire_def fire_with_def fnd Let_def)
  show ?thesis
    unfolding Let_def fr world_of_simps
    using eqs tm by (simp add: startTyping_def setInterval_def tickers_def max_def)
qed

section \<open>Init on a missing target\<close>

lemma exec_uninitialized:
  "\<not> isInitialized w \<Longrightarrow> list_all is_update_or_destroy cs \<Longrightarrow> exec cs w = w"
proof (induction cs)
  case Nil
  show ?case by simp
next
  case (Cons c cs)
  then show ?case
    by (cases c) (simp_all add: updateConfig_def destroy_def)
qed

text \<open>
  When the selector matches nothing, \<open>init\<close> stores the merged configuration, sets
  \<open>element\<close> to null, writes one error line to the console and returns: no timer is
  armed, no element and no span is touched. It does not touch \<open>isInitialized\<close>
  either. So an animator that was not initialized is still not initialized, and
  \<open>updateConfig\<close> and \<open>destroy\<close> return at their guard, once or any number of times.
\<close>

lemma init_no_match:
  assumes "querySelector w (js_str (opt_selector (spread defaultOptions cfg))) = NoMatch"
  shows "init cfg w = Inr (w\<lparr>config := spread defaultOptions cfg, element := None,
             console := console w @ [not_found_message (js_str (opt_selector (spread defaultOptions cfg)))]\<rparr>)
    \<and> isInitialized (world_of (init cfg w)) = isInitialized w
    \<and> timers (world_of (init cfg w)) = timers w
    \<and> elements (world_of (init cfg w)) = elements w
    \<and> spans (world_of (init cfg w)) = spans w
    \<and> (\<not> isInitialized w \<longrightarrow>
          updateConfig p (world_of (init cfg w)) = Inr (world_of (init cfg w))
        \<and> destroy (world_of (init cfg w)) = Inr (world_of (init cfg w))
        \<and> (list_all is_update_or_destroy cs \<longrightarrow> exec cs (world_of (init cfg w)) = world_of (init cfg w)))"
proof -
  let ?w' = "w\<lparr>config := spread defaultOptions cfg, element := None,
             console := console w @ [not_found_message (js_str (opt_selector (spread defaultOptions cfg)))]\<rparr>"
  have i: "init cfg w = Inr ?w'"
    using assms by (simp add: init_def Let_def)
  have n: "isInitialized ?w' = isInitialized w"
    by simp
  show ?thesis
    unfolding i world_of_simps using n
    by (simp add: updateConfig_def destroy_def exec_uninitialized)
qed

text \<open>A malformed selector makes \<open>querySelector\<close> throw out of \<open>init\<close>; nothing is logged.\<close>

lemma init_malformed:
  assumes "querySelector w (js_str (opt_selector (spread defaultOptions cfg))) = Malformed"
  shows "init cfg w = Inl (SyntaxError, w\<lparr>config := spread defaultOptions cfg\<rparr>)"
  using assms by (simp add: init_def Let_def)

text \<open>
  Claim C3, evaluated on the code. \<open>init\<close> never clears \<open>isInitialized\<close>. When it
  is called with a selector that matches nothing on a session that is running
  (\<open>init({text: 'Hi', speed: 10, delay: 5})\<close>, start delay fired, ticker 2 armed), it
  logs the error and returns, and the animator is left initialized with a null target
  and its ticker armed. The next tick throws a TypeError on the null target,
  \<open>updateConfig({speed: 50})\<close> is not a no-op (it arms ticker 3 against the missing
  target), and \<open>destroy\<close> throws a TypeError.
\<close>

theorem C3_failed_reinit_stays_initialized:
  "returns (init missing_target (exec [Init hi_options, Fire 1] demo_page))
   \<and> console reinit_missing = [not_found_message ''#missing'']
   \<and> isInitialized reinit_missing
   \<and> element reinit_missing = None
   \<and> timers reinit_missing = [\<lparr>tid = 2, due = 15, kind = Repeating 10\<rparr>]
   \<and> thrown (fire 2 reinit_missing) = Some TypeError
   \<and> timers (world_of (updateConfig (only_speed 50) reinit_missing))
       = [\<lparr>tid = 3, due = 55, kind = Repeating 50\<rparr>]
   \<and> thrown (destroy reinit_missing) = Some TypeError"
  by code_simp

section \<open>A start delay that outlives destroy\<close>







section \<open>The reveal pass after init\<close>

lemma insert_before_end:
  "r \<notin> set xs \<Longrightarrow> insert_before n r (xs @ [r]) = xs @ [n, r]"
  by (induction xs) auto

lemma reveal_step:
  assumes "revealing c t e ce i T k v" and "k < length t"
  shows "revealing c t e ce i T (Suc k) (world_of (fire_next v))"
proof (cases ce)
  case None
  with assms show ?thesis
    by (simp add: revealing_def fire_next_def fire_def fire_with_def tick_def tick_with_def
        reveal_char_def appendChild_text_def set_children_def stmt_def rearm_def cursor_nodes_def
        take_Suc_conv_app_nth Let_def)
next
  case (Some s)
  have "SpanNode s \<notin> set (map TextNode (take k t))"
    by auto
  from insert_before_end [OF this] Some assms show ?thesis
    by (simp add: revealing_def fire_next_def fire_def fire_with_def tick_def tick_with_def
        reveal_char_def insertBefore_text_def set_children_def stmt_def rearm_def cursor_nodes_def
        take_Suc_conv_app_nth Let_def)
qed

lemma reveal_finish:
  assumes "revealing c t e ce i T (length t) v" and "\<not> truthy_bool (opt_loop c)"
  shows "timers (world_of (fire_next v)) = []
    \<and> children (elements (world_of (fire_next v)) e) = map TextNode t @ cursor_nodes ce
    \<and> now (world_of (fire_next v)) = T + Suc (length t) * js_ms (opt_speed c)"
  using assms
  by (simp add: revealing_def fire_next_def fire_def fire_with_def tick_def tick_with_def
      clearInterval_def if_then_def stmt_def rearm_def Let_def)

lemma run_Suc_right: "run (Suc k) v = world_of (fire_next (run k v))"
  by (induction k arbitrary: v) simp_all

lemma run_add: "run (j + k) v = run j (run k v)"
  by (induction k arbitrary: v) simp_all

lemma run_idle: "timers v = [] \<Longrightarrow> run j v = v"
  by (induction j) (simp_all add: fire_next_def)

lemma run_revealing:
  "revealing c t e ce i T 0 v \<Longrightarrow> k \<le> length t \<Longrightarrow> revealing c t e ce i T k (run k v)"
proof (induction k)
  case 0
  then show ?case by simp
next
  case (Suc k)
  then have "revealing c t e ce i T k (run k v)" and "k < length t"
    by simp_all
  then show ?case
    unfolding run_Suc_right by (rule reveal_step)
qed

lemma init_starts:
  assumes "c = spread defaultOptions cfg"
    and "querySelector w (js_str (opt_selector c)) = Match e"
    and "timers w = []"
    and "opt_animation c \<noteq> Some ''none'' \<longrightarrow> token_error (animation_token (opt_animation c)) = None"
    and "\<not> truthy_bool (opt_cursor c) \<longrightarrow> cursorElement w = None"
    and "ce = (if truthy_bool (opt_cursor c) then Some (length (spans w)) else None)"
  shows "returns (init cfg w)
    \<and> children (elements (world_of (init cfg w)) e) = cursor_nodes ce
    \<and> revealing c (js_str (opt_text c)) e ce (Suc (nextTimer w)) (now w + js_ms (opt_delay c)) 0
         (run 1 (world_of (init cfg w)))"
  using assms
  by (auto simp: init_def Let_def stmt_def if_then_def set_style_color_def clear_innerHTML_def
      set_children_def classList_add_def set_style_animationDuration_def create_cursor_def
      appendChild_span_def detach_def setTimeout_def revealing_def cursor_nodes_def
      fire_next_def fire_def fire_with_def startTyping_def setInterval_def
      simp del: spread_simps split: option.splits)


text \<open>
  Claim C1, on the code. In the session of \<open>init({text: 'Hi', speed: 10, delay: 5})\<close>
  on the fresh page the text is complete at 25 = 5 + 2 * 10, but the ticker is still
  armed then: the tick that cancels it comes one period later, at 35.
  When \<open>init({text: 'Hi', speed: 10, delay: 5, cursor: false})\<close> is called on that
  finished session (no timer armed), it returns, but the handle of the old cursor is
  still in \<open>cursorElement\<close> and the span is no child of the target any more: every
  tick throws NotFoundError, at 60 = 35 + 5 + 2 * 10 nothing is revealed, and the ticker
  is never cancelled.
  When \<open>init\<close> is called twice in a row, the start delays of both calls fire and arm
  two tickers: the text is complete after one period, and ticker 3 is never cancelled.
\<close>

theorem C1_counterexample:
  "now (run 3 (world_of (init hi_options demo_page))) = 25
   \<and> children (elements (run 3 (world_of (init hi_options demo_page))) 0)
       = [TextNode CHR ''H'', TextNode CHR ''i'', SpanNode 0]
   \<and> tickers (run 3 (world_of (init hi_options demo_page))) = [\<lparr>tid = 2, due = 35, kind = Repeating 10\<rparr>]
   \<and> timers finished_session = []
   \<and> now finished_session = 35
   \<and> returns (init hi_bare finished_session)
   \<and> cursorElement stale_session = Some 0
   \<and> thrown (fire_next (run 1 stale_session)) = Some NotFoundError
   \<and> now (run 3 stale_session) = 60
   \<and> children (elements (run 3 stale_session) 0) = []
   \<and> children (elements (run 8 stale_session) 0) = []
   \<and> tickers (run 8 stale_session) = [\<lparr>tid = 4, due = 120, kind = Repeating 10\<rparr>]
   \<and> map tid (tickers (run 2 overlap_session)) = [3, 4]
   \<and> now (run 4 overlap_session) = 15
   \<and> children (elements (run 4 overlap_session) 0)
       = [TextNode CHR ''H'', TextNode CHR ''i'', SpanNode 1]
   \<and> tickers (run 9 overlap_session) = [\<lparr>tid = 3, due = 75, kind = Repeating 10\<rparr>]"
  by code_simp

text \<open>
  Claim C1, amended. Let \<open>init\<close> be called with any options whose merge over the
  defaults has \<open>loop\<close> false and an animation name that is a valid class token, on a
  page where the selector matches an element, at a moment when no timer of the session
  is armed and (if the cursor is switched off) no cursor handle is kept from an earlier
  \<open>init\<close>. Then \<open>init\<close> returns, the target shows only the cursor (if any), and
  with no other call in between: after the start delay and \<open>k\<close> ticks (for every
  \<open>k\<close> up to the length of the text) the target shows the first \<open>k\<close> characters of the
  text, in order, followed by the cursor, at time \<open>delay + k * speed\<close> after \<open>init\<close>.
  So at \<open>delay + length text * speed\<close> the whole text stands before the cursor; the
  ticker is still armed then. The next tick, one period later, cancels it; from then on
  no timer is armed and the content stays.
\<close>

theorem C1_reveal_completes:
  assumes "c = spread defaultOptions cfg" and "t = js_str (opt_text c)"
    and "d = js_ms (opt_delay c)" and "n = js_ms (opt_speed c)"
    and "querySelector w (js_str (opt_selector c)) = Match e"
    and "\<not> truthy_bool (opt_loop c)"
    and "timers w = []"
    and "opt_animation c \<noteq> Some ''none'' \<longrightarrow> token_error (animation_token (opt_animation c)) = None"
    and "\<not> truthy_bool (opt_cursor c) \<longrightarrow> cursorElement w = None"
    and "cur = (if truthy_bool (opt_cursor c) then [SpanNode (length (spans w))] else [])"
    and "k \<le> length t"
  shows "returns (init cfg w)
    \<and> children (elements (world_of (init cfg w)) e) = cur
    \<and> children (elements (run (Suc k) (world_of (init cfg w))) e) = map TextNode (take k t) @ cur
    \<and> now (run (Suc k) (world_of (init cfg w))) = now w + d + k * n
    \<and> children (elements (run (Suc (length t)) (world_of (init cfg w))) e) = map TextNode t @ cur
    \<and> now (run (Suc (length t)) (world_of (init cfg w))) = now w + d + length t * n
    \<and> tickers (run (Suc (length t)) (world_of (init cfg w)))
        = [\<lparr>tid = Suc (nextTimer w), due = now w + d + Suc (length t) * n, kind = Repeating n\<rparr>]
    \<and> now (run (Suc (Suc (length t))) (world_of (init cfg w))) = now w + d + Suc (length t) * n
    \<and> timers (run (Suc (Suc (length t)) + j) (world_of (init cfg w))) = []
    \<and> children (elements (run (Suc (Suc (length t)) + j) (world_of (init cfg w))) e) = map TextNode t @ cur"
proof -
  let ?w0 = "world_of (init cfg w)"
  let ?ce = "if truthy_bool (opt_cursor c) then Some (length (spans w)) else None"
  let ?i = "Suc (nextTimer w)"
  let ?T = "now w + js_ms (opt_delay c)"
  have cn: "cursor_nodes ?ce = cur"
    using assms(10) by (simp add: cursor_nodes_def)
  from init_starts [OF assms(1) assms(5) assms(7) assms(8) assms(9) refl]
  have r: "returns (init cfg w)" and c0: "children (elements ?w0 e) = cursor_nodes ?ce"
    and s: "revealing c t e ?ce ?i ?T 0 (run 1 ?w0)"
    using assms(2) by simp_all
  have rk: "revealing c t e ?ce ?i ?T m (run (Suc m) ?w0)" if "m \<le> length t" for m
    using run_revealing [OF s that] run_add [of m 1 ?w0] by simp
  have fin: "timers (run (Suc (Suc (length t))) ?w0) = []
    \<and> children (elements (run (Suc (Suc (length t))) ?w0) e) = map TextNode t @ cursor_nodes ?ce
    \<and> now (run (Suc (Suc (length t))) ?w0) = ?T + Suc (length t) * js_ms (opt_speed c)"
    unfolding run_Suc_right [of "Suc (length t)"]
    by (rule reveal_finish [OF rk assms(6)]) simp
  have idle: "run (Suc (Suc (length t)) + j) ?w0 = run (Suc (Suc (length t))) ?w0"
    using run_add [of j "Suc (Suc (length t))" ?w0] run_idle [of "run (Suc (Suc (length t))) ?w0" j] fin
    by (simp add: add.commute)
  show ?thesis
    using r c0 rk [OF assms(11)] rk [OF order_refl] fin
    unfolding idle by (simp add: revealing_def cn assms(3,4) tickers_def)
qed

theorem C1_reveal_completes_witness:
  "returns (init hi_options demo_page)
   \<and> children (elements (run 1 (world_of (init hi_options demo_page))) 0) = [SpanNode 0]
   \<and> children (elements (run 2 (world_of (init hi_options demo_page))) 0)
       = [TextNode CHR ''H'', SpanNode 0]
   \<and> children (elements (run 3 (world_of (init hi_options demo_page))) 0)
       = [TextNode CHR ''H'', TextNode CHR ''i'', SpanNode 0]
   \<and> now (run 3 (world_of (init hi_options demo_page))) = 25
   \<and> timers (run 4 (world_of (init hi_options demo_page))) = []
   \<and> now (run 4 (world_of (init hi_options demo_page))) = 35"
proof -
  let ?c = "spread defaultOptions hi_options"
  have h: "querySelector demo_page (js_str (opt_selector ?c)) = Match 0"
    "\<not> truthy_bool (opt_loop ?c)"
    "timers demo_page = []"
    "opt_animation ?c \<noteq> Some ''none'' \<longrightarrow> token_error (animation_token (opt_animation ?c)) = None"
    "\<not> truthy_bool (opt_cursor ?c) \<longrightarrow> cursorElement demo_page = None"
    by code_simp+
  have v: "js_str (opt_text ?c) = ''Hi''" "js_ms (opt_delay ?c) = 5" "js_ms (opt_speed ?c) = 10"
    "truthy_bool (opt_cursor ?c)" "spans demo_page = []" "now demo_page = 0"
    by code_simp+
  have k: "(k::nat) \<le> length (js_str (opt_text ?c))" if "k \<le> 2" for k
    using that by (simp add: v del: spread_simps)
  note C = C1_reveal_completes [OF refl refl refl refl h refl]
  from C [OF k, of 0 0] C [OF k, of 1 0] C [OF k, of 2 0] show ?thesis
    by (simp add: v eval_nat_numeral del: spread_simps run.simps)
qed

section \<open>The cursor handle\<close>

lemma keeps_ident_dom:
  "keeps ident (\<lambda>w. classList_remove (g w) w)"
  "keeps ident (\<lambda>w. classList_add (g w) w)"
  "keeps ident (\<lambda>w. set_style_animationDuration (g w) w)"
  "keeps ident (\<lambda>w. set_style_color (g w) w)"
  "keeps ident clear_innerHTML"
  "keeps ident (\<lambda>w. appendChild_span (h w) w)"
  "keeps ident reveal_char"
  by (auto simp: keeps_def ident_def classList_remove_def classList_add_def
      set_style_animationDuration_def set_style_color_def clear_innerHTML_def set_children_def
      appendChild_span_def reveal_char_def insertBefore_text_def appendChild_text_def
      split: option.splits)

lemma keeps_ident_resetTyping: "keeps ident resetTyping"
  unfolding resetTyping_def
  by (intro keeps_block)
    (simp add: keeps_stmt keeps_if_then keeps_block keeps_ident_dom ident_def)


lemma ident_startTyping [simp]: "ident (startTyping w) = ident w"
  by (simp add: ident_def startTyping_def setInterval_def)


lemma keeps_ident_tick: "keeps ident tick"
proof (rule keepsI)
  fix w
  have a: "keeps ident (block [reveal_char, stmt (\<lambda>w. w\<lparr>currentIndex := Suc (currentIndex w)\<rparr>)])"
    by (intro keeps_block) (simp add: keeps_stmt keeps_ident_dom ident_def)
  have b: "keeps ident (block [stmt (\<lambda>w. clearInterval (typingInterval w) w),
                 if_then (\<lambda>w. truthy_bool (opt_loop (config w)))
                   (block [resetTyping, stmt (\<lambda>w. setTimeout (js_ms (opt_delay (config w))) w)])])"
    by (intro keeps_block)
      (simp add: keeps_stmt keeps_if_then keeps_block keeps_ident_resetTyping ident_def
        clearInterval_def setTimeout_def split: option.splits)
  show "ident (world_of (tick w)) = ident w"
    using keepsD [OF a, of w] keepsD [OF b, of w]
    by (simp add: tick_def tick_with_def del: block.simps)
qed

lemma ident_fire: "ident (world_of (fire i w)) = ident w"
proof (cases "find (\<lambda>t. tid t = i) (timers w)")
  case None
  then show ?thesis by (simp add: fire_def fire_with_def)
next
  case (Some t)
  show ?thesis
  proof (cases "kind t")
    case OneShot
    with Some show ?thesis
      by (simp add: fire_def fire_with_def Let_def) (simp add: ident_def)
  next
    case (Repeating p)
    let ?w1 = "w\<lparr>now := max (now w) (due t)\<rparr>"
    have "ident (world_of (tick ?w1)) = ident w"
      using keepsD [OF keeps_ident_tick, of ?w1] by (simp add: ident_def)
    with Some Repeating show ?thesis
      by (auto simp: fire_def fire_with_def Let_def rearm_def ident_def split: sum.splits)
  qed
qed












section \<open>Version 1.0.0 against version 2.0.0\<close>

lemma init_same:
  assumes "same_session a b" and "shared_only cfg"
  shows "same_session (world_of (init_v1 cfg a)) (world_of (init cfg b)) \<and> plain (world_of (init cfg b))"
proof (cases "querySelector b (js_str (opt_selector (spread defaultOptions cfg)))")
  case Malformed
  with assms show ?thesis
    by (auto simp: same_session_def shared_only_def shared_part_def init_def init_v1_def Let_def
      defaultOptions_def defaultOptions_v1_def plain_def)
next
  case NoMatch
  with assms show ?thesis
    by (auto simp: same_session_def shared_only_def shared_part_def init_def init_v1_def Let_def
      defaultOptions_def defaultOptions_v1_def plain_def)
next
  case (Match e)
  with assms show ?thesis
    by (auto simp: same_session_def shared_only_def shared_part_def init_def init_v1_def Let_def
      defaultOptions_def defaultOptions_v1_def stmt_def if_then_def set_style_color_def
      clear_innerHTML_def set_children_def create_cursor_def appendChild_span_def detach_def
      setTimeout_def fun_eq_iff truthy_bool_def plain_def split: option.splits)
qed

lemma resetTyping_same:
  assumes "same_session a b" and "opt_animation (config b) = Some ''none''"
  shows "same_session (world_of (resetTyping_v1 a)) (world_of (resetTyping b))
    \<and> returns (resetTyping_v1 a) = returns (resetTyping b)
    \<and> config (world_of (resetTyping b)) = config b"
  using assms
  by (auto simp: same_session_def shared_part_def resetTyping_def resetTyping_v1_def stmt_def
      if_then_def clear_innerHTML_def set_children_def appendChild_span_def detach_def fun_eq_iff
      returns_def split: option.splits)

lemma setTimeout_same: "same_session x y \<Longrightarrow> same_session (setTimeout m x) (setTimeout m y)"
  by (auto simp: same_session_def shared_part_def setTimeout_def)

lemma clearInterval_same:
  "same_session x y \<Longrightarrow> same_session (clearInterval (typingInterval x) x) (clearInterval (typingInterval y) y)"
  by (auto simp: same_session_def shared_part_def clearInterval_def split: option.splits)

lemma startTyping_same: "same_session x y \<Longrightarrow> same_session (startTyping x) (startTyping y)"
  by (auto simp: same_session_def shared_part_def startTyping_def setInterval_def)

lemma tick_same:
  assumes "same_session a b" and "opt_animation (config b) = Some ''none''"
  shows "same_session (world_of (tick_v1 a)) (world_of (tick b))"
proof (cases "currentIndex b < length (this_text b)")
  case True
  with assms(1) show ?thesis
    by (auto simp: same_session_def shared_part_def tick_def tick_v1_def tick_with_def stmt_def
        reveal_char_def insertBefore_text_def appendChild_text_def set_children_def fun_eq_iff
        split: option.splits)
next
  case False
  let ?a = "clearInterval (typingInterval a) a" and ?b = "clearInterval (typingInterval b) b"
  have c: "same_session ?a ?b"
    by (rule clearInterval_same [OF assms(1)])
  have n: "opt_animation (config ?b) = Some ''none''"
    using assms(2) by (simp add: clearInterval_def split: option.splits)
  have l: "truthy_bool (opt_loop (config ?a)) = truthy_bool (opt_loop (config ?b))"
    using c by (simp add: same_session_def shared_part_def)
  note r = resetTyping_same [OF c n]
  have d: "js_ms (opt_delay (config (world_of (resetTyping_v1 ?a)))) = js_ms (opt_delay (config (world_of (resetTyping ?b))))"
    using r by (simp add: same_session_def shared_part_def)
  from False assms(1) have f: "\<not> currentIndex a < length (this_text a)"
    by (simp add: same_session_def)
  show ?thesis
    using r l d c setTimeout_same [OF conjunct1 [OF r]]
    by (cases "resetTyping_v1 ?a"; cases "resetTyping ?b")
      (auto simp: tick_def tick_v1_def tick_with_def stmt_def if_then_def False f returns_def)
qed

lemma rearm_same: "same_session x y \<Longrightarrow> same_session (rearm i p x) (rearm i p y)"
  by (auto simp: same_session_def shared_part_def rearm_def)

lemma config_fire: "config (world_of (fire i w)) = config w"
  using ident_fire [of i w] by (simp add: ident_def)

lemma fire_same:
  assumes "same_session a b" and "plain b"
  shows "same_session (world_of (fire_with tick_v1 i a)) (world_of (fire i b)) \<and> plain (world_of (fire i b))"
proof (cases "find (\<lambda>t. tid t = i) (timers b)")
  case None
  with assms show ?thesis
    by (simp add: fire_def fire_with_def same_session_def)
next
  case (Some t)
  then have ne: "timers b \<noteq> []"
    by (cases "timers b") simp_all
  with assms(2) have an: "opt_animation (config b) = Some ''none''"
    by (auto simp: plain_def)
  then have p: "plain (world_of (fire i b))"
    by (simp add: plain_def config_fire)
  from Some assms(1) have fa: "find (\<lambda>t. tid t = i) (timers a) = Some t"
    by (simp add: same_session_def)
  let ?a = "a\<lparr>now := max (now a) (due t)\<rparr>" and ?b = "b\<lparr>now := max (now b) (due t)\<rparr>"
  have s1: "same_session ?a ?b"
    using assms(1) by (auto simp: same_session_def shared_part_def)
  show ?thesis
  proof (cases "kind t")
    case OneShot
    have "same_session (?a\<lparr>timers := filter (\<lambda>u. tid u \<noteq> i) (timers ?a)\<rparr>)
        (?b\<lparr>timers := filter (\<lambda>u. tid u \<noteq> i) (timers ?b)\<rparr>)"
      using s1 by (auto simp: same_session_def shared_part_def)
    from startTyping_same [OF this] Some fa OneShot p show ?thesis
      by (simp add: fire_def fire_with_def Let_def)
  next
    case (Repeating q)
    have "same_session (world_of (tick_v1 ?a)) (world_of (tick ?b))"
      by (rule tick_same [OF s1]) (simp add: an)
    from rearm_same [OF this] Some fa Repeating p show ?thesis
      by (auto simp: fire_def fire_with_def Let_def split: sum.splits)
  qed
qed


lemma simI:
  "(\<And>a b. rel p a b \<Longrightarrow> rel p (world_of (s1 a)) (world_of (s2 b)) \<and> returns (s1 a) = returns (s2 b))
    \<Longrightarrow> sim p s1 s2"
  by (simp add: sim_def)

lemma simD:
  "sim p s1 s2 \<Longrightarrow> rel p a b \<Longrightarrow> rel p (world_of (s1 a)) (world_of (s2 b)) \<and> returns (s1 a) = returns (s2 b)"
  by (simp add: sim_def)

lemma sim_stmt: "(\<And>a b. rel p a b \<Longrightarrow> rel p (f a) (g b)) \<Longrightarrow> sim p (stmt f) (stmt g)"
  by (simp add: sim_def stmt_def)

lemma sim_if_then:
  "(\<And>a b. rel p a b \<Longrightarrow> c1 a = c2 b) \<Longrightarrow> sim p s1 s2 \<Longrightarrow> sim p (if_then c1 s1) (if_then c2 s2)"
  by (auto simp: sim_def if_then_def)

lemma sim_block: "list_all2 (sim p) ss1 ss2 \<Longrightarrow> sim p (block ss1) (block ss2)"
proof (induction rule: list_all2_induct)
  case Nil
  show ?case by (simp add: sim_def)
next
  case (Cons s1 ss1 s2 ss2)
  show ?case
  proof (rule simI)
    fix a b
    assume r: "rel p a b"
    note h = simD [OF Cons.hyps(1) r]
    show "rel p (world_of (block (s1 # ss1) a)) (world_of (block (s2 # ss2) b))
      \<and> returns (block (s1 # ss1) a) = returns (block (s2 # ss2) b)"
    proof (cases "s1 a")
      case (Inl x)
      with h obtain y where "s2 b = Inl y"
        by (cases "s2 b") (simp_all add: returns_def)
      with Inl h show ?thesis
        by (cases x; cases y) (simp add: returns_def)
    next
      case (Inr a')
      with h obtain b' where "s2 b = Inr b'"
        by (cases "s2 b") (simp_all add: returns_def)
      with Inr h simD [OF Cons.IH, of a' b'] show ?thesis
        by simp
    qed
  qed
qed

lemma sim_resetTyping: "sim p resetTyping_v1 resetTyping"
proof (rule simI)
  fix a b
  assume "rel p a b"
  then show "rel p (world_of (resetTyping_v1 a)) (world_of (resetTyping b))
    \<and> returns (resetTyping_v1 a) = returns (resetTyping b)"
    using resetTyping_same [of a b] by (simp add: rel_def)
qed

lemma sim_update_text: "sim p (update_text q resetTyping_v1) (update_text q resetTyping)"
  unfolding update_text_def
  by (intro sim_if_then sim_block)
    (auto simp: sim_resetTyping intro!: sim_stmt
      simp: rel_def same_session_def shared_part_def clearInterval_def setTimeout_def
      split: option.splits)

lemma sim_update_speed: "sim p (update_speed q) (update_speed q)"
  unfolding update_speed_def
  by (intro sim_if_then sim_block)
    (auto intro!: sim_stmt
      simp: rel_def same_session_def shared_part_def clearInterval_def startTyping_def
        setInterval_def split: option.splits)

lemma sim_update_cursor: "sim p (update_cursor q) (update_cursor q)"
  by (rule simI)
    (auto simp: rel_def same_session_def shared_part_def update_cursor_def stmt_def
      create_cursor_def appendChild_span_def removeChild_span_def set_children_def detach_def
      fun_eq_iff returns_def split: option.splits)

lemma shared_only_tail:
  assumes "shared_only p"
  shows "update_animation p w = Inr w"
    and "if_then (\<lambda>w. truthy_str (opt_color p)) s w = Inr w"
    and "if_then (\<lambda>w. truthy_num (opt_animationDuration p)) s' w = Inr w"
  using assms
  by (simp_all add: shared_only_def update_animation_def if_then_def truthy_str_def truthy_num_def)

lemma updateConfig_same:
  assumes "same_session a b" and "plain b" and "shared_only p"
  shows "same_session (world_of (updateConfig_v1 p a)) (world_of (updateConfig p b))
    \<and> plain (world_of (updateConfig p b))"
proof (cases "isInitialized b")
  case False
  with assms show ?thesis
    by (simp add: updateConfig_def updateConfig_v1_def same_session_def)
next
  case True
  with assms(1) have ia: "isInitialized a"
    by (simp add: same_session_def)
  from True assms(2) have an: "opt_animation (config b) = Some ''none''"
    by (auto simp: plain_def)
  let ?a = "a\<lparr>config := spread (config a) p\<rparr>" and ?b = "b\<lparr>config := spread (config b) p\<rparr>"
  have r: "rel p ?a ?b"
    using assms(1,3) an
    by (auto simp: rel_def same_session_def shared_part_def shared_only_def truthy_str_def
        split: option.splits)
  let ?s1 = "[update_text p resetTyping_v1, update_speed p,
     if_then (\<lambda>w. opt_cursor p \<noteq> None) (update_cursor p),
     if_then (\<lambda>w. truthy_str (opt_cursorStyle p) \<and> cursorElement w \<noteq> None)
       (stmt (\<lambda>w. set_cursor_text (js_str (opt_cursorStyle p)) w))]"
  let ?s2 = "[update_text p resetTyping, update_speed p,
     if_then (\<lambda>w. opt_cursor p \<noteq> None) (update_cursor p),
     if_then (\<lambda>w. truthy_str (opt_cursorStyle p) \<and> cursorElement w \<noteq> None)
       (stmt (\<lambda>w. set_cursor_text (js_str (opt_cursorStyle (config w))) w))]"
  have st: "sim p (if_then (\<lambda>w. truthy_str (opt_cursorStyle p) \<and> cursorElement w \<noteq> None)
       (stmt (\<lambda>w. set_cursor_text (js_str (opt_cursorStyle p)) w)))
     (if_then (\<lambda>w. truthy_str (opt_cursorStyle p) \<and> cursorElement w \<noteq> None)
       (stmt (\<lambda>w. set_cursor_text (js_str (opt_cursorStyle (config w))) w)))"
    by (rule simI)
      (auto simp: rel_def same_session_def shared_part_def if_then_def stmt_def set_cursor_text_def
        split: option.splits)
  have cu: "sim p (if_then (\<lambda>w. opt_cursor p \<noteq> None) (update_cursor p))
     (if_then (\<lambda>w. opt_cursor p \<noteq> None) (update_cursor p))"
    by (intro sim_if_then sim_update_cursor) simp
  have "sim p (block ?s1) (block ?s2)"
    by (rule sim_block) (intro list.rel_intros sim_update_text sim_update_speed cu st)
  from simD [OF this r] have k: "rel p (world_of (block ?s1 ?a)) (world_of (block ?s2 ?b))" ..
  have v1: "updateConfig_v1 p a = block ?s1 ?a"
    using ia by (simp add: updateConfig_v1_def stmt_def)
  have "block (?s2 @ [update_animation p,
     if_then (\<lambda>w. truthy_str (opt_color p))
       (\<lambda>w. set_style_color (js_str (opt_color (config w))) w),
     if_then (\<lambda>w. truthy_num (opt_animationDuration p))
       (\<lambda>w. set_style_animationDuration (duration_ms (opt_animationDuration (config w))) w)]) w
     = block ?s2 w" for w
    by (simp add: shared_only_tail [OF assms(3)] split: sum.splits)
  then have v2: "updateConfig p b = block ?s2 ?b"
    using True by (simp add: updateConfig_def stmt_def)
  from k show ?thesis
    unfolding v1 v2 by (simp add: rel_def plain_def)
qed

lemma step_same:
  assumes "same_session a b" and "plain b" and "shared_call c"
  shows "same_session (world_of (step_v1 c a)) (world_of (step c b)) \<and> plain (world_of (step c b))"
  using assms init_same updateConfig_same fire_same [of a b]
  by (cases c) simp_all

text \<open>
  Apart from \<open>destroy\<close> the versions agree: on every page, after the same history
  of \<open>init\<close> and \<open>updateConfig\<close> calls over the shared options and of timer
  firings, both are in the same session (same revealed characters and cursor
  placement, same timers).
\<close>

theorem versions_agree_without_destroy:
  assumes "list_all shared_call cs"
  shows "same_session (exec_v1 cs (loaded doc els)) (exec cs (loaded doc els))"
proof -
  have "same_session a b \<Longrightarrow> plain b \<Longrightarrow> same_session (exec_v1 cs a) (exec cs b)" for a b
    using assms
  proof (induction cs arbitrary: a b)
    case Nil
    then show ?case by simp
  next
    case (Cons c cs)
    from step_same [OF Cons.prems(1,2)] Cons.prems(3) Cons.IH show ?case
      by simp
  qed
  moreover have "same_session (loaded doc els) (loaded doc els)"
    by (simp add: same_session_def loaded_def)
  moreover have "plain (loaded doc els)"
    by (simp add: plain_def loaded_def)
  ultimately show ?thesis
    by blast
qed


text \<open>
  Claim C10, evaluated on the code. With the default options, \<open>destroy\<close> of version
  2.0.0 calls \<open>classList.remove('')\<close>, which throws a SyntaxError before
  \<open>isInitialized\<close> is cleared; version 1.0.0 has no such call and completes. So after
  \<open>init({}); destroy(); updateConfig({speed: 50})\<close> version 2.0.0 has armed a ticker
  and version 1.0.0 has not.
\<close>

theorem C10_versions_differ_after_destroy:
  "thrown (destroy (exec [Init no_options] demo_page)) = Some SyntaxError
   \<and> thrown (destroy_v1 (exec_v1 [Init no_options] demo_page)) = None
   \<and> isInitialized (exec [Init no_options, Destroy] demo_page)
   \<and> \<not> isInitialized (exec_v1 [Init no_options, Destroy] demo_page)
   \<and> map tid (tickers (exec [Init no_options, Destroy, UpdateConfig (only_speed 50)] demo_page)) = [2]
   \<and> tickers (exec_v1 [Init no_options, Destroy, UpdateConfig (only_speed 50)] demo_page) = []"
  by code_simp

end
